theory Spec2Isabelle
  imports Main
begin

section \<open>Python values used by the synchronisation routine\<close>

text \<open>
  The routine \<open>_sync_wikidata_artwork\<close> of the class \<open>OpenAccessWikiData\<close> maps one
  artwork record to Wikidata statements, queries Wikidata for the accession number and
  then creates a new item or synchronises the item it found.

  Strings are lists of characters; a character stands for one code point below 256, so
  \<open>length\<close> is Python's \<open>len\<close> on such strings.
\<close>

datatype py_exception =
  KeyError | TypeError | ValueError | AttributeError | OtherPageSaveError | NoPage

text \<open>The characters \<open>str.strip\<close> removes: Python's white space below code point 256.\<close>

definition py_isspace :: "char \<Rightarrow> bool" where
  "py_isspace c = (c \<in> set [CHR 0x09, CHR 0x0A, CHR 0x0B, CHR 0x0C, CHR 0x0D,
                             CHR 0x1C, CHR 0x1D, CHR 0x1E, CHR 0x1F, CHR 0x20,
                             CHR 0x85, CHR 0xA0])"

definition lstrip :: "string \<Rightarrow> string" where
  "lstrip s = dropWhile py_isspace s"

definition rstrip :: "string \<Rightarrow> string" where
  "rstrip s = rev (dropWhile py_isspace (rev s))"

text \<open>\<open>s.replace(a, b)\<close> for single characters \<open>a\<close> and \<open>b\<close>.\<close>

definition replace_char :: "char \<Rightarrow> char \<Rightarrow> string \<Rightarrow> string" where
  "replace_char a b s = map (\<lambda>c. if c = a then b else c) s"

text \<open>
  \<open>str.lower\<close> on the letters A to Z. The only string the routine lowers is the record's
  \<open>type\<close>, after it was found among the keys of the table \<open>entities\<close>, which are ASCII.
\<close>

definition lower_char :: "char \<Rightarrow> char" where
  "lower_char c =
     (case map_of (zip ''ABCDEFGHIJKLMNOPQRSTUVWXYZ'' ''abcdefghijklmnopqrstuvwxyz'') c of
        Some l \<Rightarrow> l
      | None \<Rightarrow> c)"

definition lower :: "string \<Rightarrow> string" where
  "lower s = map lower_char s"

section \<open>The artwork record\<close>

text \<open>
  The JSON record of one artwork, with the fields the routine reads. \<open>accession_number\<close>
  is \<open>None\<close> when the key is absent; the creation dates, a creator's description and the
  print URL are \<open>None\<close> when the JSON value is null; \<open>images\<close> is \<open>None\<close> when the key is
  absent or null. The other keys are present with values of their types, and an \<open>images\<close>
  object has the entry \<open>print\<close> with the entry \<open>url\<close>, as in the collection's records.
\<close>

record creator =
  description :: "string option"

record images =
  print_url :: "string option"

record artwork =
  accession_number :: "string option"
  url :: string
  title :: string
  creation_date_earliest :: "int option"
  creation_date_latest :: "int option"
  creators :: "creator list"
  share_license_status :: string
  artwork_type :: string
  artwork_images :: "images option"

section \<open>Claims\<close>

text \<open>
  The targets the routine gives to claims: an item page, a string (a URL or the accession
  number), a monolingual text and a time of which only the year, or year, month and day
  are given.
\<close>

datatype wb_value =
    ItemPage string
  | WbString string
  | WbMonolingualText string string
  | WbTime int "int option" "int option"

type_synonym snak = "string \<times> wb_value option"

text \<open>
  A claim object after all the calls of \<open>setTarget\<close>, \<open>addQualifier\<close> and \<open>addSources\<close>
  made on it and on the qualifier objects it refers to. The target is \<open>None\<close> when no
  target was set or the target set was \<open>None\<close>.
\<close>

record claim =
  property_id :: string
  target :: "wb_value option"
  qualifiers :: "snak list"
  sources :: "snak list"

text \<open>The part of \<open>claim.toJSON()\<close> under the key \<open>mainsnak\<close>: property and value.\<close>

definition mainsnak :: "claim \<Rightarrow> snak" where
  "mainsnak c = (property_id c, target c)"

text \<open>The table \<open>entities['type']\<close>: a type maps to an identifier or to a nested dict.\<close>

datatype entity = Str string | Dict string string

definition entities_type :: "(string \<times> entity) list" where
  "entities_type =
    [(''Amulets'', Str ''Q131557''),
     (''Apparatus'', Str ''Q39546''),
     (''Arms and Armor'', Str ''Q598227''),
     (''Basketry'', Str ''Q201097''),
     (''Book Binding'', Str ''Q1125338''),
     (''Bound Volume'', Str ''Q571''),
     (''Calligraphy'', Str ''Q22669850''),
     (''Carpet'', Str ''Q163446''),
     (''Ceramic'', Str ''Q13464614''),
     (''Coins'', Str ''Q41207''),
     (''Cosmetic Objects'', Str ''Q223557''),
     (''Drawing'', Str ''Q93184''),
     (''Embroidery'', Str ''Q18281''),
     (''Enamel'', Str ''Q79496108''),
     (''Forgery'', Str ''Q29541662''),
     (''Funerary Equipment'', Str ''Q79497835''),
     (''Furniture and woodwork'', Str ''Q60734095''),
     (''Garment'', Str ''Q11460''),
     (''Glass'', Str ''Q13180610''),
     (''Glyptic'', Dict ''P2079'' ''Q929254''),
     (''Illumination'', Str ''Q8362''),
     (''Implements'', Str ''Q39546''),
     (''Inlays'', Dict ''P2079'' ''Q1281067''),
     (''Ivory'', Dict ''P186'' ''Q82001''),
     (''Jade'', Str ''Q60733799''),
     (''Jewelry'', Str ''Q161439''),
     (''Knitting'', Str ''Q29048022''),
     (''Lace'', Str ''Q231250''),
     (''Lacquer'', Str ''Q368972''),
     (''Lamp'', Str ''Q368972''),
     (''Leather'', Str ''Q79504355''),
     (''Linoleum Block'', Str ''Q22060043''),
     (''Lithographic Stone'', Str ''''),
     (''Manuscript'', Str ''Q87167''),
     (''Metalwork'', Str ''Q29382731''),
     (''Miniature'', Str ''Q282129''),
     (''Miscellaneous'', Str ''''),
     (''Mixed Media'', Dict ''P136'' ''Q1902763''),
     (''Monotype'', Str ''Q22669635''),
     (''Mosaic'', Str ''Q133067''),
     (''Musical Instrument'', Str ''Q34379''),
     (''Netsuke'', Str ''Q543901''),
     (''Painting'', Str ''Q3305213''),
     (''Photograph'', Str ''Q125191''),
     (''Plaque'', Str ''Q4364339''),
     (''Plate'', Str ''Q57216''),
     (''Portfolio'', Str ''Q79509036''),
     (''Portrait Miniature'', Str ''Q282129''),
     (''Print'', Str ''Q11060274''),
     (''Relief'', Str ''Q11060274''),
     (''Rock crystal'', Dict ''P186'' ''Q2050687''),
     (''Sampler'', Str ''Q1513987''),
     (''Scarabs'', Str ''Q2442735''),
     (''Sculpture'', Str ''Q860861''),
     (''Seals'', Str ''Q2474386''),
     (''Silver'', Dict ''P186'' ''Q1090''),
     (''Spindle Whorl'', Str ''Q2474386''),
     (''Stone'', Dict ''P186'' ''Q22731''),
     (''Tapestry'', Str ''Q184296''),
     (''Textile'', Str ''Q28823''),
     (''Time-based Media'', Dict ''P136'' ''Q57206278''),
     (''Tool'', Str ''Q39546''),
     (''Velvet'', Dict ''P186'' ''Q243519''),
     (''Vessels'', Str ''Q987767''),
     (''Wood'', Dict ''P186'' ''Q287''),
     (''Woodblock'', Str ''Q28913685'')]"

section \<open>Parsing data from CMA into statements\<close>

text \<open>
  Both source snaks of a primary claim: the reference URL and the date of retrieval,
  which is the day the routine runs.
\<close>

definition url_qual :: "artwork \<Rightarrow> snak" where
  "url_qual a = (''P854'', Some (WbString (url a)))"

definition retrieved_qual :: "int \<times> int \<times> int \<Rightarrow> snak" where
  "retrieved_qual now =
     (case now of (y, m, d) \<Rightarrow> (''P813'', Some (WbTime y (Some m) (Some d))))"

definition primary :: "int \<times> int \<times> int \<Rightarrow> artwork \<Rightarrow> string \<Rightarrow> wb_value option \<Rightarrow> snak list \<Rightarrow> claim" where
  "primary now a p v qs =
     \<lparr>property_id = p, target = v, qualifiers = qs,
      sources = [url_qual a, retrieved_qual now]\<rparr>"

definition institution_target :: wb_value where
  "institution_target = ItemPage ''Q657415''"

definition institution_prop :: "int \<times> int \<times> int \<Rightarrow> artwork \<Rightarrow> claim" where
  "institution_prop now a = primary now a ''P195'' (Some institution_target) []"

definition accession_number_prop :: "int \<times> int \<times> int \<Rightarrow> artwork \<Rightarrow> string \<Rightarrow> claim" where
  "accession_number_prop now a acc =
     primary now a ''P217'' (Some (WbString acc)) [(''P195'', Some institution_target)]"

definition instance_prop :: "int \<times> int \<times> int \<Rightarrow> artwork \<Rightarrow> claim" where
  "instance_prop now a = primary now a ''P31'' (Some (ItemPage ''Q18593264'')) []"

text \<open>\<open>artwork['title'].rstrip().lstrip().replace('\n', ' ').replace('\r', ' ')\<close>\<close>

definition clean_title :: "artwork \<Rightarrow> string" where
  "clean_title a =
     replace_char (CHR 0x0D) (CHR '' '') (replace_char (CHR 0x0A) (CHR '' '') (lstrip (rstrip (title a))))"

text \<open>The monolingual text of a title that is not empty.\<close>

definition title_target :: "artwork \<Rightarrow> wb_value" where
  "title_target a = WbMonolingualText (clean_title a) ''en''"

definition title_prop :: "int \<times> int \<times> int \<Rightarrow> artwork \<Rightarrow> claim" where
  "title_prop now a = primary now a ''P1476'' (Some (title_target a)) []"

definition url_prop :: "int \<times> int \<times> int \<Rightarrow> artwork \<Rightarrow> claim" where
  "url_prop now a = primary now a ''P973'' (Some (WbString (url a))) []"

text \<open>
  The created date: appended when both dates are equal and the earliest one is truthy,
  which \<open>None\<close> and the integer 0 are not.
\<close>

definition created_prop :: "int \<times> int \<times> int \<Rightarrow> artwork \<Rightarrow> int \<Rightarrow> claim" where
  "created_prop now a y = primary now a ''P571'' (Some (WbTime y None None)) []"

definition created_claims :: "int \<times> int \<times> int \<Rightarrow> artwork \<Rightarrow> claim list" where
  "created_claims now a =
     (if creation_date_earliest a = creation_date_latest a then
        (case creation_date_earliest a of
           None \<Rightarrow> []
         | Some y \<Rightarrow> if y \<noteq> 0 then [created_prop now a y] else [])
      else [])"

text \<open>
  The loop over the creators: a truthy description (neither null nor empty) is appended
  between a space and a semicolon, its newlines replaced by spaces.
\<close>

fun authors_loop :: "string \<Rightarrow> creator list \<Rightarrow> string" where
  "authors_loop author_target [] = author_target"
| "authors_loop author_target (author # rest) =
     authors_loop
       (case description author of
          None \<Rightarrow> author_target
        | Some d \<Rightarrow>
            if d \<noteq> [] then author_target @ '' '' @ replace_char (CHR 0x0A) (CHR '' '') d @ '';''
            else author_target)
       rest"

definition author_target :: "artwork \<Rightarrow> string" where
  "author_target a =
     (let t = (if length (creators a) > 0
               then lstrip (butlast (authors_loop [] (creators a)))
               else ''unknown artist'')
      in if length t = 0 then ''unknown artist'' else t)"

text \<open>
  The copyright status: the target is set for the two known statuses, the qualifier of
  the determination method is added in any case, and the claim is appended for the two
  known statuses only.
\<close>

definition copyright_prop :: "int \<times> int \<times> int \<Rightarrow> artwork \<Rightarrow> claim" where
  "copyright_prop now a =
     primary now a ''P6216''
       (if share_license_status a = ''CC0'' then Some (ItemPage ''Q19652'')
        else if share_license_status a = ''Copyrighted'' then Some (ItemPage ''Q50423863'')
        else None)
       [(''P459'', Some (ItemPage ''Q61848113''))]"

definition copyright_claims :: "int \<times> int \<times> int \<Rightarrow> artwork \<Rightarrow> claim list" where
  "copyright_claims now a =
     (if share_license_status a = ''Copyrighted'' \<or> share_license_status a = ''CC0''
      then [copyright_prop now a] else [])"

text \<open>
  The object type: \<open>entities['type'][artwork['type']]\<close> raises \<open>KeyError\<close> for a type that
  is no key of the table; the claim is appended for a non-empty string only.
\<close>

definition type_prop :: "int \<times> int \<times> int \<Rightarrow> artwork \<Rightarrow> string \<Rightarrow> claim" where
  "type_prop now a q = primary now a ''P31'' (Some (ItemPage q)) []"

definition type_claims :: "int \<times> int \<times> int \<Rightarrow> artwork \<Rightarrow> py_exception + claim list" where
  "type_claims now a =
     (case map_of entities_type (artwork_type a) of
        None \<Rightarrow> Inl KeyError
      | Some (Str q) \<Rightarrow> Inr (if q \<noteq> [] then [type_prop now a q] else [])
      | Some (Dict p q) \<Rightarrow> Inr [])"

text \<open>
  The Commons claim: its six qualifiers are attached when the claim object is made; the
  target and the targets of the qualifiers are set for a CC0 record with truthy
  \<open>images\<close> only. The client library's \<open>setTarget\<close> raises \<open>ValueError\<close> for a value that
  is not of the property's type, as \<open>None\<close> is for the URL of a record whose print URL is
  null. The claim has no sources, and it is not appended to \<open>claims\<close>.
\<close>

definition commons_prop :: "artwork \<Rightarrow> py_exception + claim" where
  "commons_prop a =
     (case (if share_license_status a = ''CC0'' then artwork_images a else None) of
        Some im \<Rightarrow>
          (case print_url im of
             None \<Rightarrow> Inl ValueError
           | Some u \<Rightarrow>
               Inr \<lparr>property_id = ''P4765'',
                    target = Some (WbString u),
                    qualifiers =
                      [(''P2093'', Some (WbString (author_target a))),
                       (''P1476'', Some (title_target a)),
                       (''P2701'', Some (ItemPage ''Q2195'')),
                       (''P275'', Some (ItemPage ''Q6938433'')),
                       (''P137'', Some institution_target),
                       (''P2699'', Some (WbString (url a)))],
                    sources = []\<rparr>)
      | None \<Rightarrow>
          Inr \<lparr>property_id = ''P4765'',
               target = None,
               qualifiers =
                 [(''P2093'', None), (''P1476'', None), (''P2701'', None),
                  (''P275'', None), (''P137'', None), (''P2699'', None)],
               sources = []\<rparr>)"

text \<open>What the first part of the routine has computed when it reaches the query.\<close>

record built =
  claims :: "claim list"
  commons :: claim
  label :: string
  descr :: string
  accession :: string

definition make_description :: "artwork \<Rightarrow> string \<Rightarrow> string" where
  "make_description a acc =
     (let d = ''('' @ acc @ '') '' @ lower (artwork_type a) @ '' by '' @ author_target a
      in if length d > 250 then take 250 d else d)"

definition make_label :: "artwork \<Rightarrow> string" where
  "make_label a = (if length (clean_title a) > 250 then take 250 (clean_title a) else clean_title a)"

text \<open>
  The statement builder, with its failures in the order of the code. A record without
  the key \<open>accession_number\<close> raises \<open>KeyError\<close>, whose handler runs \<open>output += e\<close> with the
  string \<open>output\<close> and the exception \<open>e\<close>: this raises \<open>TypeError\<close>, and the
  \<open>return output\<close> after it is never reached. The client library's \<open>WbMonolingualText\<close>
  raises \<open>ValueError\<close> for an empty text, which the title is when nothing is left of it
  after the strip. Then come the \<open>KeyError\<close> of the type table and the \<open>ValueError\<close> of the
  Commons target.
\<close>

definition build :: "int \<times> int \<times> int \<Rightarrow> artwork \<Rightarrow> py_exception + built" where
  "build now a =
     (case accession_number a of
        None \<Rightarrow> Inl TypeError
      | Some acc \<Rightarrow>
          if clean_title a = [] then Inl ValueError
          else
            (case type_claims now a of
               Inl e \<Rightarrow> Inl e
             | Inr tc \<Rightarrow>
                 (case commons_prop a of
                    Inl e \<Rightarrow> Inl e
                  | Inr c \<Rightarrow>
                      Inr \<lparr>claims =
                             [institution_prop now a, accession_number_prop now a acc,
                              instance_prop now a, title_prop now a, url_prop now a]
                             @ created_claims now a @ copyright_claims now a @ tc,
                           commons = c,
                           label = make_label a,
                           descr = make_description a acc,
                           accession = acc\<rparr>)))"

section \<open>Wikidata as the routine sees it\<close>

text \<open>
  Modelled from the spec: the Wikidata client library and the query service are not part
  of the repository. A remote item has labels and descriptions per language and claims
  grouped by property; the write interface has the four operations entity-create,
  label-edit, description-edit and claim-add, each with an edit summary.
\<close>

record remote_item =
  labels :: "string \<rightharpoonup> string"
  descriptions :: "string \<rightharpoonup> string"
  item_claims :: "(string \<times> claim list) list"

text \<open>The dict \<open>data\<close> handed to \<open>editEntity\<close>.\<close>

record entity_data =
  data_label :: string
  data_description :: string
  data_claims :: "claim list"

datatype write_call =
    EditEntity entity_data string
  | EditLabels string string string
  | EditDescriptions string string string
  | AddClaim string claim string

text \<open>
  The answer of the query service to the query for an accession number: a body that
  \<open>json.loads\<close> rejects, or the \<open>Qid\<close> values of \<open>results.bindings\<close>.
\<close>

datatype lookup_response = Unparsable | Bindings "string list"

text \<open>
  Modelled from the spec: the state of Wikidata and the behaviour of the client. \<open>today\<close>
  is the date \<open>datetime.now()\<close> gives; \<open>sparql\<close> answers the query for an accession number;
  \<open>pages\<close> holds the items by identifier; \<open>new_qid\<close> is the identifier a created item gets;
  \<open>save_conflict\<close> says that \<open>editEntity\<close> raises \<open>OtherPageSaveError\<close>;
  \<open>addClaim_raises\<close> says for which claims \<open>addClaim\<close> raises \<open>AttributeError\<close>, and
  \<open>error_text\<close> is the text of a raised exception; \<open>calls\<close> records every write call in
  the order of issue, also a call that raises. Other failures of the client are not
  modelled.
\<close>

record wikidata =
  today :: "int \<times> int \<times> int"
  sparql :: "string \<Rightarrow> lookup_response"
  pages :: "string \<rightharpoonup> remote_item"
  new_qid :: string
  save_conflict :: bool
  addClaim_raises :: "claim \<Rightarrow> bool"
  error_text :: string
  calls :: "write_call list"

text \<open>Modelled from the spec: a claim added to an item joins the claims of its property.\<close>

fun add_claim :: "claim \<Rightarrow> (string \<times> claim list) list \<Rightarrow> (string \<times> claim list) list" where
  "add_claim c [] = [(property_id c, [c])]"
| "add_claim c ((p, cs) # rest) =
     (if p = property_id c then (p, cs @ [c]) # rest else (p, cs) # add_claim c rest)"

text \<open>Modelled from the spec: the item a successful \<open>editEntity\<close> creates from \<open>data\<close>.\<close>

definition created_item :: "entity_data \<Rightarrow> remote_item" where
  "created_item d =
     \<lparr>labels = [''en'' \<mapsto> data_label d],
      descriptions = [''en'' \<mapsto> data_description d],
      item_claims = fold add_claim (data_claims d) []\<rparr>"

text \<open>\<open>str(item)\<close> of an item page with an identifier.\<close>

definition item_str :: "string \<Rightarrow> string" where
  "item_str qid = ''[[wikidata:'' @ qid @ '']]''"

section \<open>The outcome of one synchronisation\<close>

datatype sync_return = ReturnNone | ReturnTuple string "string option"

datatype sync_result = Raise py_exception | Return sync_return

definition import_summary :: "string \<Rightarrow> string" where
  "import_summary acc =
     ''Importing Cleveland Museum of Art collections to Wikidata: accession number '' @ acc @ ''.''"

definition statement_summary :: "string \<Rightarrow> string" where
  "statement_summary acc =
     ''Synchronizing Wikidata statement with Cleveland Museum of Art data: accession number '' @ acc @ ''.''"

definition label_summary :: "string \<Rightarrow> string" where
  "label_summary acc =
     ''Synchronizing Wikidata label with Cleveland Museum of Art data: accession number '' @ acc @ ''.''"

definition description_summary :: "string \<Rightarrow> string" where
  "description_summary acc =
     ''Synchronizing Wikidata description with Cleveland Museum of Art data: accession number '' @ acc @ ''.''"

section \<open>If no item with this accession number, create it\<close>

definition fixed_description :: "string \<Rightarrow> string" where
  "fixed_description acc = ''artwork in the Cleveland Museum of Art's collection ('' @ acc @ '')''"

definition newitem :: "built \<Rightarrow> entity_data" where
  "newitem b =
     \<lparr>data_label = label b,
      data_description = fixed_description (accession b),
      data_claims = claims b\<rparr>"

text \<open>
  The branch for no binding. \<open>item_return\<close> is assigned after the Commons claim was
  added; the handlers of \<open>AttributeError\<close> and \<open>OtherPageSaveError\<close> only extend \<open>output\<close>.
\<close>

definition create_item :: "built \<Rightarrow> wikidata \<Rightarrow> (string \<times> string option) \<times> wikidata" where
  "create_item b w =
     (let acc = accession b;
          qid = new_qid w;
          w1 = w\<lparr>calls := calls w @ [EditEntity (newitem b) (import_summary acc)]\<rparr>
      in if save_conflict w then
           ((''Failed to upload: '' @ acc @ ''  '' @ error_text w, None), w1)
         else
           (let w2 = w1\<lparr>pages := (pages w1)(qid \<mapsto> created_item (newitem b)),
                        calls := calls w1 @ [AddClaim qid (commons b) (statement_summary acc)]\<rparr>
            in if addClaim_raises w (commons b) then
                 ((''Failed to upload: '' @ acc @ ''  '' @ error_text w
                   @ [CHR 0x0A, CHR 0x09] @ ''Most likely '' @ acc
                   @ '' has a null image response field in artwork JSON'', None), w2)
               else
                 ((''Uploaded: '' @ acc @ '' Item: '' @ item_str qid, Some (item_str qid)),
                  w2\<lparr>pages := (pages w2)(qid \<mapsto>
                       (created_item (newitem b))
                         \<lparr>item_claims := add_claim (commons b) (item_claims (created_item (newitem b)))\<rparr>)\<rparr>)))"

section \<open>If item found with this accession number, synchronize any missing data\<close>

text \<open>The item being synchronised, the write calls issued so far and the message.\<close>

record sync_state =
  item :: remote_item
  issued :: "write_call list"
  output_text :: string

text \<open>\<open>not d.get('en')\<close>: the key is absent or its text is empty.\<close>

definition not_get_en :: "(string \<rightharpoonup> string) \<Rightarrow> bool" where
  "not_get_en d = (case d ''en'' of None \<Rightarrow> True | Some v \<Rightarrow> v = [])"

definition editLabels :: "string \<Rightarrow> built \<Rightarrow> sync_state \<Rightarrow> sync_state" where
  "editLabels qid b s =
     s\<lparr>item := (item s)\<lparr>labels := (labels (item s))(''en'' \<mapsto> label b)\<rparr>,
       issued := issued s @ [EditLabels qid (label b) (label_summary (accession b))],
       output_text := output_text s @ [CHR 0x0A, CHR 0x09] @ ''Synchronizing changes to label for ''
                 @ item_str qid @ '': '' @ label b\<rparr>"

text \<open>
  \<open>item.get()['labels']['en']\<close> raises \<open>KeyError\<close> for an item without an English label;
  the handler then edits the label when \<open>get('en')\<close> is falsy.
\<close>

definition sync_label :: "string \<Rightarrow> built \<Rightarrow> sync_state \<Rightarrow> sync_state" where
  "sync_label qid b s =
     (case labels (item s) ''en'' of
        Some l \<Rightarrow> if l \<noteq> label b then editLabels qid b s else s
      | None \<Rightarrow> if not_get_en (labels (item s)) then editLabels qid b s else s)"

definition editDescriptions :: "string \<Rightarrow> built \<Rightarrow> sync_state \<Rightarrow> sync_state" where
  "editDescriptions qid b s =
     s\<lparr>item := (item s)\<lparr>descriptions := (descriptions (item s))(''en'' \<mapsto> descr b)\<rparr>,
       issued := issued s @ [EditDescriptions qid (descr b) (description_summary (accession b))],
       output_text := output_text s @ [CHR 0x0A, CHR 0x09] @ ''Synchronizing changes to description for ''
                 @ item_str qid @ '': '' @ label b\<rparr>"

definition sync_description :: "string \<Rightarrow> built \<Rightarrow> sync_state \<Rightarrow> sync_state" where
  "sync_description qid b s =
     (case descriptions (item s) ''en'' of
        Some d \<Rightarrow> if d \<noteq> descr b then editDescriptions qid b s else s
      | None \<Rightarrow> if not_get_en (descriptions (item s)) then editDescriptions qid b s else s)"

text \<open>
  The list \<open>clms\<close>: the main snaks of all claims of the item, each once, in the order of
  the properties and of the claims of a property.
\<close>

fun clms_of_prop :: "snak list \<Rightarrow> claim list \<Rightarrow> snak list" where
  "clms_of_prop clms [] = clms"
| "clms_of_prop clms (clm # rest) =
     clms_of_prop (if mainsnak clm \<notin> set clms then clms @ [mainsnak clm] else clms) rest"

fun clms_loop :: "snak list \<Rightarrow> (string \<times> claim list) list \<Rightarrow> snak list" where
  "clms_loop clms [] = clms"
| "clms_loop clms ((prop, cs) # rest) = clms_loop (clms_of_prop clms cs) rest"

definition keys :: "(string \<times> claim list) list \<Rightarrow> string list" where
  "keys d = map fst d"

text \<open>
  The Commons claim is added to an item of a CC0 record with truthy \<open>images\<close> when the
  item has neither a claim \<open>P18\<close> nor a claim \<open>P4765\<close>; an \<open>AttributeError\<close> of the call is
  caught and reported in the message.
\<close>

definition sync_commons :: "(claim \<Rightarrow> bool) \<Rightarrow> string \<Rightarrow> string \<Rightarrow> artwork \<Rightarrow> built \<Rightarrow> sync_state \<Rightarrow> sync_state" where
  "sync_commons raises etext qid a b s =
     (if share_license_status a = ''CC0'' \<and> artwork_images a \<noteq> None
         \<and> ''P18'' \<notin> set (keys (item_claims (item s)))
         \<and> ''P4765'' \<notin> set (keys (item_claims (item s)))
      then
        (let s1 = s\<lparr>issued := issued s @ [AddClaim qid (commons b) (statement_summary (accession b))]\<rparr>
         in if raises (commons b) then
              s1\<lparr>output_text := output_text s1 @ [CHR 0x0A, CHR 0x09] @ ''Failed to synchronize claim '' @ etext\<rparr>
            else
              s1\<lparr>item := (item s1)\<lparr>item_claims := add_claim (commons b) (item_claims (item s1))\<rparr>,
                 output_text := output_text s1 @ [CHR 0x0A, CHR 0x09] @ ''Synchronizing missing 'P4765' claim for ''
                           @ item_str qid @ '': '' @ label b\<rparr>)
      else s)"

text \<open>
  The loop over \<open>claims\<close>: a statement whose main snak is not in \<open>clms\<close> is added. The
  call is not guarded, so an exception of \<open>addClaim\<close> ends the routine.
\<close>

fun sync_claims :: "(claim \<Rightarrow> bool) \<Rightarrow> string \<Rightarrow> built \<Rightarrow> snak list \<Rightarrow> claim list \<Rightarrow> sync_state
                    \<Rightarrow> py_exception option \<times> sync_state" where
  "sync_claims raises qid b clms [] s = (None, s)"
| "sync_claims raises qid b clms (stmnt # rest) s =
     (if mainsnak stmnt \<notin> set clms then
        (let s1 = s\<lparr>issued := issued s @ [AddClaim qid stmnt (statement_summary (accession b))]\<rparr>
         in if raises stmnt then (Some AttributeError, s1)
            else sync_claims raises qid b clms rest
                   (s1\<lparr>item := (item s1)\<lparr>item_claims := add_claim stmnt (item_claims (item s1))\<rparr>,
                       output_text := output_text s1 @ [CHR 0x0A, CHR 0x09] @ ''Synchronizing missing ''
                                 @ [CHR 0x27] @ property_id stmnt @ [CHR 0x27] @ '' claim for ''
                                 @ item_str qid @ '': '' @ label b\<rparr>))
      else sync_claims raises qid b clms rest s)"

text \<open>The branch for one binding, on the item the binding names.\<close>

definition reconcile :: "(claim \<Rightarrow> bool) \<Rightarrow> string \<Rightarrow> string \<Rightarrow> artwork \<Rightarrow> built \<Rightarrow> sync_state
                         \<Rightarrow> py_exception option \<times> sync_state" where
  "reconcile raises etext qid a b s =
     (let s1 = s\<lparr>output_text := output_text s @ ''syncing: '' @ accession b @ '' label: '' @ item_str qid\<rparr>;
          s2 = sync_label qid b s1;
          s3 = sync_description qid b s2;
          clms = clms_loop [] (item_claims (item s3));
          s4 = sync_commons raises etext qid a b s3
      in sync_claims raises qid b clms (claims b) s4)"

definition sync_item :: "artwork \<Rightarrow> built \<Rightarrow> string \<Rightarrow> string \<Rightarrow> wikidata \<Rightarrow> sync_result \<times> wikidata" where
  "sync_item a b qid out w =
     (case pages w qid of
        None \<Rightarrow> (Raise NoPage, w)
      | Some it \<Rightarrow>
          (case reconcile (addClaim_raises w) (error_text w) qid a b
                  \<lparr>item = it, issued = [], output_text = out\<rparr> of
             (e, s) \<Rightarrow>
               (case e of
                  Some x \<Rightarrow> Raise x
                | None \<Rightarrow> Return (ReturnTuple (output_text s) (Some (item_str qid))),
                w\<lparr>pages := (pages w)(qid \<mapsto> item s), calls := calls w @ issued s\<rparr>)))"

section \<open>The routine\<close>

text \<open>
  \<open>_sync_wikidata_artwork\<close>: build the statements, query for the accession number, return
  \<open>None\<close> for an answer that does not parse, create the item for no binding, synchronise
  the item for one binding, and return the message and the item.
\<close>

definition sync_wikidata_artwork :: "artwork \<Rightarrow> wikidata \<Rightarrow> sync_result \<times> wikidata" where
  "sync_wikidata_artwork a w =
     (case build (today w) a of
        Inl e \<Rightarrow> (Raise e, w)
      | Inr b \<Rightarrow>
          (case sparql w (accession b) of
             Unparsable \<Rightarrow> (Return ReturnNone, w)
           | Bindings bs \<Rightarrow>
               (case (if length bs = 0 then create_item b w else (([], None), w)) of
                  ((out, item_return), w1) \<Rightarrow>
                    if length bs = 1 then sync_item a b (hd bs) out w1
                    else (Return (ReturnTuple out item_return), w1))))"

section \<open>Observations and example inputs\<close>

text \<open>The claims of one property among the statements built.\<close>

definition claims_of_property :: "string \<Rightarrow> built \<Rightarrow> claim list" where
  "claims_of_property p b = filter (\<lambda>c. property_id c = p) (claims b)"

text \<open>
  The record of the relief with accession number 1916.1, a CC0 work with a print image
  and no creators, and a Wikidata without items in which the query finds nothing and
  \<open>addClaim\<close> raises for a claim without target.
\<close>

definition relief_record :: artwork where
  "relief_record =
     \<lparr>accession_number = Some ''1916.1'',
      url = ''https://clevelandart.org/art/1916.1'',
      title = ''Relief of a Woman'',
      creation_date_earliest = Some 1500,
      creation_date_latest = Some 1500,
      creators = [],
      share_license_status = ''CC0'',
      artwork_type = ''Relief'',
      artwork_images = Some \<lparr>print_url = Some ''https://openaccess-cdn.clevelandart.org/1916.1/1916.1_print.jpg''\<rparr>\<rparr>"

definition empty_wikidata :: wikidata where
  "empty_wikidata =
     \<lparr>today = (2020, 1, 2), sparql = (\<lambda>acc. Bindings []), pages = Map.empty, new_qid = ''Q100'',
      save_conflict = False, addClaim_raises = (\<lambda>c. target c = None),
      error_text = ''NoneType object has no attribute toWikibase'', calls = []\<rparr>"

text \<open>\<open>sep.join(xs)\<close>, and the descriptions of the creators that are neither null nor empty.\<close>

fun join :: "string \<Rightarrow> string list \<Rightarrow> string" where
  "join sep [] = []"
| "join sep [x] = x"
| "join sep (x # y # ys) = x @ sep @ join sep (y # ys)"

definition nonempty_descriptions :: "creator list \<Rightarrow> string list" where
  "nonempty_descriptions cs =
     List.map_filter (\<lambda>c. case description c of None \<Rightarrow> None | Some d \<Rightarrow> if d \<noteq> [] then Some d else None) cs"

text \<open>
  The author string in the words of the specification, to compare with \<open>author_target\<close>:
  the non-empty descriptions joined by a semicolon and a space, trimmed of surrounding
  white space, and the literal ``unknown artist'' when there is none.
\<close>

definition spec_author_string :: "artwork \<Rightarrow> string" where
  "spec_author_string a =
     (if nonempty_descriptions (creators a) = [] then ''unknown artist''
      else lstrip (rstrip (join ''; '' (nonempty_descriptions (creators a)))))"

text \<open>The item identifier a result carries, and the calls that edit a description.\<close>

definition returned_item :: "sync_result \<Rightarrow> string option" where
  "returned_item r = (case r of Return (ReturnTuple out it) \<Rightarrow> it | _ \<Rightarrow> None)"

fun is_description_edit :: "write_call \<Rightarrow> bool" where
  "is_description_edit (EditDescriptions qid d summary) = True"
| "is_description_edit call = False"

text \<open>The calls that add a claim of the Commons property.\<close>

fun is_commons_add :: "write_call \<Rightarrow> bool" where
  "is_commons_add (AddClaim qid c summary) = (property_id c = ''P4765'')"
| "is_commons_add call = False"

text \<open>
  An item as the create branch leaves it for the relief record, here with the accession
  number as its only claim, and a Wikidata in which the query finds this item.
\<close>

definition existing_item :: remote_item where
  "existing_item =
     \<lparr>labels = [''en'' \<mapsto> ''Relief of a Woman''],
      descriptions = [''en'' \<mapsto> ''artwork in the Cleveland Museum of Art's collection (1916.1)''],
      item_claims =
        [(''P217'', [\<lparr>property_id = ''P217'', target = Some (WbString ''1916.1''),
                       qualifiers = [(''P195'', Some (ItemPage ''Q657415''))], sources = []\<rparr>])]\<rparr>"

definition one_item_wikidata :: wikidata where
  "one_item_wikidata =
     empty_wikidata\<lparr>sparql := (\<lambda>acc. Bindings [''Q42'']), pages := [''Q42'' \<mapsto> existing_item]\<rparr>"

section \<open>Properties of the statement builder and of the routine\<close>

lemma build_Inr:
  "build now a = Inr b \<longleftrightarrow>
     (\<exists>acc tc c. accession_number a = Some acc \<and> clean_title a \<noteq> [] \<and>
        type_claims now a = Inr tc \<and> commons_prop a = Inr c \<and>
        b = \<lparr>claims = [institution_prop now a, accession_number_prop now a acc,
                         instance_prop now a, title_prop now a, url_prop now a]
                        @ created_claims now a @ copyright_claims now a @ tc,
              commons = c, label = make_label a,
              descr = make_description a acc, accession = acc\<rparr>)"
  by (auto simp: build_def split: option.splits sum.splits)

lemma build_commons_target:
  "build now a = Inr b \<Longrightarrow> share_license_status a = ''CC0'' \<Longrightarrow> artwork_images a \<noteq> None \<Longrightarrow>
     target (commons b) \<noteq> None"
  by (auto simp: build_Inr commons_prop_def split: option.splits)

lemmas build_eval =
  build_def type_claims_def entities_type_def commons_prop_def clean_title_def
  lstrip_def rstrip_def py_isspace_def replace_char_def relief_record_def

lemma build_accession:
  "build now a = Inr b \<Longrightarrow> accession_number a = Some (accession b)"
  by (auto simp: build_Inr)

text \<open>
  C2 (what the code does): for a record without the key \<open>accession_number\<close> the routine
  does not return an error message. The handler of the \<open>KeyError\<close> adds the exception to
  a string, so the routine ends with a \<open>TypeError\<close>; no write call is issued and Wikidata
  is unchanged.
\<close>
theorem missing_accession_number_raises:
  "accession_number a = None \<Longrightarrow> sync_wikidata_artwork a w = (Raise TypeError, w)"
  by (simp add: sync_wikidata_artwork_def build_def)

text \<open>The relief record without its accession number, on the empty Wikidata.\<close>

theorem missing_accession_number_raises_witness:
  "sync_wikidata_artwork (relief_record\<lparr>accession_number := None\<rparr>) empty_wikidata
     = (Raise TypeError, empty_wikidata)"
  using missing_accession_number_raises [of "relief_record\<lparr>accession_number := None\<rparr>" empty_wikidata]
  by simp

text \<open>
  C6: when the answer to the query for the record's accession number does not parse as
  JSON, the routine leaves Wikidata as it is, so no write call is issued, and, whenever
  the statements could be built (so that the query is made), it returns \<open>None\<close>.
\<close>
theorem lookup_parse_failure:
  "accession_number a = Some acc \<Longrightarrow> sparql w acc = Unparsable \<Longrightarrow>
     snd (sync_wikidata_artwork a w) = w \<and>
     (\<forall>b. build (today w) a = Inr b \<longrightarrow> fst (sync_wikidata_artwork a w) = Return ReturnNone)"
proof -
  assume acc: "accession_number a = Some acc" and un: "sparql w acc = Unparsable"
  show ?thesis
  proof (cases "build (today w) a")
    case (Inl e)
    then show ?thesis by (simp add: sync_wikidata_artwork_def)
  next
    case (Inr b)
    with acc have "accession b = acc" by (auto simp: build_Inr)
    with Inr un show ?thesis by (simp add: sync_wikidata_artwork_def)
  qed
qed

text \<open>The relief record on a Wikidata whose query service answers with an unparsable body.\<close>

theorem lookup_parse_failure_witness:
  "snd (sync_wikidata_artwork relief_record (empty_wikidata\<lparr>sparql := \<lambda>acc. Unparsable\<rparr>))
     = empty_wikidata\<lparr>sparql := \<lambda>acc. Unparsable\<rparr> \<and>
   fst (sync_wikidata_artwork relief_record (empty_wikidata\<lparr>sparql := \<lambda>acc. Unparsable\<rparr>))
     = Return ReturnNone"
proof -
  let ?w = "empty_wikidata\<lparr>sparql := \<lambda>acc. Unparsable\<rparr>"
  have acc: "accession_number relief_record = Some ''1916.1''"
    by (simp add: relief_record_def)
  have un: "sparql ?w ''1916.1'' = Unparsable"
    by simp
  have "\<exists>b. build (today ?w) relief_record = Inr b"
    by (simp add: build_eval)
  with lookup_parse_failure [OF acc un] show ?thesis
    by blast
qed


lemma claims_of_property_build:
  assumes "build now a = Inr b"
  shows "\<exists>acc tc. accession_number a = Some acc \<and> type_claims now a = Inr tc \<and>
           claims_of_property p b =
             filter (\<lambda>c. property_id c = p)
               [institution_prop now a, accession_number_prop now a acc,
                instance_prop now a, title_prop now a, url_prop now a]
             @ filter (\<lambda>c. property_id c = p) (created_claims now a)
             @ filter (\<lambda>c. property_id c = p) (copyright_claims now a)
             @ filter (\<lambda>c. property_id c = p) tc"
  using assms unfolding build_Inr claims_of_property_def by auto

lemmas prop_defs =
  institution_prop_def accession_number_prop_def instance_prop_def title_prop_def
  url_prop_def created_prop_def copyright_prop_def type_prop_def primary_def

lemma type_claims_P31: "type_claims now a = Inr tc \<Longrightarrow> c \<in> set tc \<Longrightarrow> property_id c = ''P31''"
  by (auto simp: type_claims_def prop_defs split: option.splits entity.splits if_splits)

lemma created_claims_cases:
  "created_claims now a = [] \<or> (\<exists>y. created_claims now a = [created_prop now a y])"
  unfolding created_claims_def by (simp split: option.split) blast

lemma created_claims_P571: "c \<in> set (created_claims now a) \<Longrightarrow> property_id c = ''P571''"
  using created_claims_cases [of now a] by (auto simp: prop_defs)

lemma copyright_claims_P6216: "c \<in> set (copyright_claims now a) \<Longrightarrow> property_id c = ''P6216''"
  by (auto simp: copyright_claims_def prop_defs split: if_splits)

text \<open>
  C8 (amended): the statements built hold exactly one created-date claim (\<open>P571\<close>), with
  the year as target, when the earliest and the latest creation date are equal, not null
  and not 0; they hold none when the dates differ, are null or are 0.
\<close>
theorem created_claim_emitted:
  "build now a = Inr b \<Longrightarrow>
     claims_of_property ''P571'' b =
       (case creation_date_earliest a of
          Some y \<Rightarrow> if creation_date_latest a = Some y \<and> y \<noteq> 0 then [created_prop now a y] else []
        | None \<Rightarrow> [])"
proof -
  assume b: "build now a = Inr b"
  from claims_of_property_build [OF b, of "''P571''"] obtain acc tc where
    tc: "type_claims now a = Inr tc" and
    eq: "claims_of_property ''P571'' b =
           filter (\<lambda>c. property_id c = ''P571'')
             [institution_prop now a, accession_number_prop now a acc,
              instance_prop now a, title_prop now a, url_prop now a]
           @ filter (\<lambda>c. property_id c = ''P571'') (created_claims now a)
           @ filter (\<lambda>c. property_id c = ''P571'') (copyright_claims now a)
           @ filter (\<lambda>c. property_id c = ''P571'') tc"
    by blast
  have 1: "filter (\<lambda>c. property_id c = ''P571'')
             [institution_prop now a, accession_number_prop now a acc,
              instance_prop now a, title_prop now a, url_prop now a] = []"
    by (simp add: prop_defs)
  have 2: "filter (\<lambda>c. property_id c = ''P571'') (copyright_claims now a) = []"
    by (auto simp: filter_empty_conv dest: copyright_claims_P6216)
  have 3: "filter (\<lambda>c. property_id c = ''P571'') tc = []"
    by (auto simp: filter_empty_conv dest: type_claims_P31 [OF tc])
  have 4: "filter (\<lambda>c. property_id c = ''P571'') (created_claims now a) = created_claims now a"
    by (auto simp: filter_id_conv dest: created_claims_P571)
  show ?thesis
    unfolding eq 1 2 3 4 by (auto simp: created_claims_def split: option.splits)
qed

text \<open>The relief record, with both dates 1500, has the one claim \<open>P571\<close> for 1500.\<close>

theorem created_claim_emitted_witness:
  "map_sum id (claims_of_property ''P571'') (build (2020, 1, 2) relief_record)
     = Inr [created_prop (2020, 1, 2) relief_record 1500]"
proof -
  obtain b where b: "build (2020, 1, 2) relief_record = Inr b"
    by (simp add: build_eval)
  from created_claim_emitted [OF b] b show ?thesis
    by (simp add: relief_record_def)
qed

text \<open>
  C8 as stated fails for the year 0: both dates are equal and not null, and no created-date
  claim is built, because the integer 0 is not truthy.
\<close>

theorem created_claim_year_zero:
  "creation_date_earliest (relief_record\<lparr>creation_date_earliest := Some 0, creation_date_latest := Some 0\<rparr>)
     = creation_date_latest (relief_record\<lparr>creation_date_earliest := Some 0, creation_date_latest := Some 0\<rparr>) \<and>
   creation_date_earliest (relief_record\<lparr>creation_date_earliest := Some 0, creation_date_latest := Some 0\<rparr>) \<noteq> None \<and>
   map_sum id (claims_of_property ''P571'')
     (build (2020, 1, 2) (relief_record\<lparr>creation_date_earliest := Some 0, creation_date_latest := Some 0\<rparr>))
     = Inr []"
  by (simp add: build_eval claims_of_property_def created_claims_def copyright_claims_def prop_defs)


text \<open>
  C3 (amended): take a record with an accession number and a title that is not blank.
  A \<open>type\<close> that is no key of the table makes the builder raise \<open>KeyError\<close>. For a \<open>type\<close>
  that is a key, the builder completes unless the Commons target is rejected (a CC0
  record with images whose print URL is null), and the claims of property \<open>P31\<close> it has
  built are the instance-of claim followed by the object-type claim exactly when the
  table gives a non-empty string: for an empty string or a nested dict there is no
  object-type claim.
\<close>

theorem object_type_claim:
  "accession_number a = Some acc \<Longrightarrow> clean_title a \<noteq> [] \<Longrightarrow>
     (case map_of entities_type (artwork_type a) of
        None \<Rightarrow> build now a = Inl KeyError
      | Some v \<Rightarrow>
          (case commons_prop a of
             Inl e \<Rightarrow> build now a = Inl e
           | Inr c \<Rightarrow>
               (\<exists>b. build now a = Inr b \<and>
                  claims_of_property ''P31'' b =
                    instance_prop now a #
                      (case v of
                         Str q \<Rightarrow> if q \<noteq> [] then [type_prop now a q] else []
                       | Dict p q \<Rightarrow> []))))"
proof -
  assume acc: "accession_number a = Some acc" and title: "clean_title a \<noteq> []"
  show ?thesis
  proof (cases "map_of entities_type (artwork_type a)")
    case None
    with acc title show ?thesis by (simp add: build_def type_claims_def)
  next
    case (Some v)
    define tc where "tc = (case v of Str q \<Rightarrow> if q \<noteq> [] then [type_prop now a q] else [] | Dict p q \<Rightarrow> [])"
    have tc: "type_claims now a = Inr tc"
      using Some by (simp add: type_claims_def tc_def split: entity.splits)
    show ?thesis
    proof (cases "commons_prop a")
      case (Inl e)
      with acc title tc Some show ?thesis by (simp add: build_def)
    next
      case (Inr c)
      from acc title tc Inr obtain b where b: "build now a = Inr b"
        by (simp add: build_def)
      from claims_of_property_build [OF b, of "''P31''"] acc tc have
        eq: "claims_of_property ''P31'' b =
             filter (\<lambda>c. property_id c = ''P31'')
               [institution_prop now a, accession_number_prop now a acc,
                instance_prop now a, title_prop now a, url_prop now a]
             @ filter (\<lambda>c. property_id c = ''P31'') (created_claims now a)
             @ filter (\<lambda>c. property_id c = ''P31'') (copyright_claims now a)
             @ filter (\<lambda>c. property_id c = ''P31'') tc"
        by auto
      have 1: "filter (\<lambda>c. property_id c = ''P31'')
               [institution_prop now a, accession_number_prop now a acc,
                instance_prop now a, title_prop now a, url_prop now a] = [instance_prop now a]"
        by (simp add: prop_defs)
      have 2: "filter (\<lambda>c. property_id c = ''P31'') (copyright_claims now a) = []"
        by (auto simp: filter_empty_conv dest: copyright_claims_P6216)
      have 3: "filter (\<lambda>c. property_id c = ''P31'') tc = tc"
        by (auto simp: filter_id_conv dest: type_claims_P31 [OF tc])
      have 4: "filter (\<lambda>c. property_id c = ''P31'') (created_claims now a) = []"
        by (auto simp: filter_empty_conv dest: created_claims_P571)
      have "claims_of_property ''P31'' b = instance_prop now a # tc"
        unfolding eq 1 2 3 4 by simp
      with b Some Inr show ?thesis
        by (simp add: tc_def)
    qed
  qed
qed

text \<open>
  The type ``Relief'' is a key with the identifier \<open>Q11060274\<close>, ``Miscellaneous'' is a
  key with the empty string and ``Ivory'' is a key with a nested dict; the relief record
  has a title and a print URL.
\<close>

theorem object_type_claim_witness:
  "map_sum id (claims_of_property ''P31'') (build (2020, 1, 2) relief_record)
     = Inr [instance_prop (2020, 1, 2) relief_record, type_prop (2020, 1, 2) relief_record ''Q11060274''] \<and>
   map_sum id (claims_of_property ''P31'') (build (2020, 1, 2) (relief_record\<lparr>artwork_type := ''Miscellaneous''\<rparr>))
     = Inr [instance_prop (2020, 1, 2) (relief_record\<lparr>artwork_type := ''Miscellaneous''\<rparr>)] \<and>
   map_sum id (claims_of_property ''P31'') (build (2020, 1, 2) (relief_record\<lparr>artwork_type := ''Ivory''\<rparr>))
     = Inr [instance_prop (2020, 1, 2) (relief_record\<lparr>artwork_type := ''Ivory''\<rparr>)]"
proof -
  have acc0: "accession_number relief_record = Some ''1916.1''"
    and acc: "accession_number (relief_record\<lparr>artwork_type := t\<rparr>) = Some ''1916.1''" for t
    by (simp_all add: relief_record_def)
  have title0: "clean_title relief_record \<noteq> []"
    and title: "clean_title (relief_record\<lparr>artwork_type := t\<rparr>) \<noteq> []" for t
    by (simp_all add: relief_record_def clean_title_def lstrip_def rstrip_def py_isspace_def replace_char_def)
  have ty: "map_of entities_type (artwork_type relief_record) = Some (Str ''Q11060274'')"
    "map_of entities_type (artwork_type (relief_record\<lparr>artwork_type := ''Miscellaneous''\<rparr>))
              = Some (Str [])"
    "map_of entities_type (artwork_type (relief_record\<lparr>artwork_type := ''Ivory''\<rparr>))
              = Some (Dict ''P186'' ''Q82001'')"
    by (simp_all add: entities_type_def relief_record_def)
  have co: "\<exists>c. commons_prop relief_record = Inr c"
    "\<exists>c. commons_prop (relief_record\<lparr>artwork_type := ''Miscellaneous''\<rparr>) = Inr c"
    "\<exists>c. commons_prop (relief_record\<lparr>artwork_type := ''Ivory''\<rparr>) = Inr c"
    by (simp_all add: commons_prop_def relief_record_def)
  from object_type_claim [OF acc0 title0, of "(2020, 1, 2)"]
    object_type_claim [OF acc [of "''Miscellaneous''"] title [of "''Miscellaneous''"], of "(2020, 1, 2)"]
    object_type_claim [OF acc [of "''Ivory''"] title [of "''Ivory''"], of "(2020, 1, 2)"]
    co
  show ?thesis
    unfolding ty by auto
qed

text \<open>
  C3 as stated fails for a type that is no key of the table: the claim is not skipped,
  the builder ends with \<open>KeyError\<close>.
\<close>

theorem unknown_type_raises:
  "build (2020, 1, 2) (relief_record\<lparr>artwork_type := ''Installation''\<rparr>) = Inl KeyError"
  by (simp add: build_eval)

lemma authors_loop_concat:
  "authors_loop acc cs =
     acc @ concat (map (\<lambda>d. '' '' @ replace_char (CHR 0x0A) (CHR '' '') d @ '';'') (nonempty_descriptions cs))"
  by (induction cs arbitrary: acc)
     (auto simp: nonempty_descriptions_def split: option.splits)

lemma butlast_concat_join:
  "ds \<noteq> [] \<Longrightarrow>
     butlast (concat (map (\<lambda>d. CHR '' '' # f d @ '';'') ds)) = CHR '' '' # join ''; '' (map f ds)"
proof (induction ds rule: induct_list012)
  case 1
  then show ?case by simp
next
  case (2 x)
  then show ?case by (simp add: butlast_append)
next
  case (3 x y zs)
  then show ?case by (simp add: butlast_append)
qed

lemma lstrip_space: "lstrip (CHR '' '' # s) = lstrip s"
  by (simp add: lstrip_def py_isspace_def)

text \<open>
  C9 (amended): the author string is the creators' non-empty descriptions, newlines
  replaced by spaces, joined by a semicolon and a space, with leading white space
  removed and trailing white space kept; it is the literal ``unknown artist'' whenever
  that string is empty, and so when there are no creators or no creator has a non-empty
  description.
\<close>

theorem author_target_joined:
  "author_target a =
     (let s = lstrip (join ''; '' (map (replace_char (CHR 0x0A) (CHR '' ''))
                                       (nonempty_descriptions (creators a))))
      in if s = [] then ''unknown artist'' else s) \<and>
   (nonempty_descriptions (creators a) = [] \<longrightarrow> author_target a = ''unknown artist'')"
proof (cases "nonempty_descriptions (creators a) = []")
  case True
  then have "authors_loop [] (creators a) = []"
    by (simp add: authors_loop_concat)
  with True show ?thesis
    by (simp add: author_target_def lstrip_def)
next
  case False
  then have ne: "creators a \<noteq> []"
    by (auto simp: nonempty_descriptions_def)
  have "lstrip (butlast (authors_loop [] (creators a))) =
        lstrip (join ''; '' (map (replace_char (CHR 0x0A) (CHR '' '')) (nonempty_descriptions (creators a))))"
    by (simp add: authors_loop_concat butlast_concat_join [OF False] lstrip_space)
  with ne False show ?thesis
    by (simp add: author_target_def Let_def)
qed

text \<open>
  Four creators, two of them with a description; two creators without a description;
  one creator whose description is a space, for which the joined string is empty.
\<close>

theorem author_target_joined_witness:
  "author_target (relief_record\<lparr>creators :=
      [\<lparr>description = Some ''Auguste Rodin (French, 1840-1917)''\<rparr>, \<lparr>description = None\<rparr>,
       \<lparr>description = Some []\<rparr>, \<lparr>description = Some ''Unknown''\<rparr>]\<rparr>)
     = ''Auguste Rodin (French, 1840-1917); Unknown'' \<and>
   author_target (relief_record\<lparr>creators := [\<lparr>description = None\<rparr>, \<lparr>description = Some []\<rparr>]\<rparr>)
     = ''unknown artist'' \<and>
   author_target (relief_record\<lparr>creators := [\<lparr>description = Some '' ''\<rparr>]\<rparr>) = ''unknown artist''"
  using author_target_joined [of "relief_record\<lparr>creators :=
      [\<lparr>description = Some ''Auguste Rodin (French, 1840-1917)''\<rparr>, \<lparr>description = None\<rparr>,
       \<lparr>description = Some []\<rparr>, \<lparr>description = Some ''Unknown''\<rparr>]\<rparr>"]
    author_target_joined [of "relief_record\<lparr>creators := [\<lparr>description = None\<rparr>, \<lparr>description = Some []\<rparr>]\<rparr>"]
    author_target_joined [of "relief_record\<lparr>creators := [\<lparr>description = Some '' ''\<rparr>]\<rparr>"]
  by (simp add: nonempty_descriptions_def replace_char_def lstrip_def py_isspace_def)

text \<open>
  C9 as stated fails for a description that ends in a space: the author string keeps the
  space, the string of the specification's words does not.
\<close>

theorem author_target_not_trimmed:
  "author_target (relief_record\<lparr>creators := [\<lparr>description = Some ''Rodin ''\<rparr>]\<rparr>) = ''Rodin '' \<and>
   spec_author_string (relief_record\<lparr>creators := [\<lparr>description = Some ''Rodin ''\<rparr>]\<rparr>) = ''Rodin''"
  by (simp add: author_target_def spec_author_string_def nonempty_descriptions_def
      replace_char_def lstrip_def rstrip_def py_isspace_def)

text \<open>
  C5 (amended): the label is the record's title stripped of surrounding white space, its
  newlines and carriage returns replaced by spaces, cut to 250 characters; the
  description is the accession number in parentheses, the lowered type, ``by'' and the
  author string, cut to 250 characters.
\<close>
theorem label_and_description:
  "build now a = Inr b \<Longrightarrow>
     label b = take 250 (clean_title a) \<and>
     descr b = take 250 (''('' @ accession b @ '') '' @ lower (artwork_type a) @ '' by '' @ author_target a) \<and>
     accession_number a = Some (accession b)"
  by (auto simp: build_Inr make_label_def make_description_def Let_def)

text \<open>
  The relief record, which has no creators: the label is its title and the description
  is ``(1916.1) relief by unknown artist''.
\<close>

theorem label_and_description_witness:
  "map_sum id label (build (2020, 1, 2) relief_record) = Inr ''Relief of a Woman'' \<and>
   map_sum id descr (build (2020, 1, 2) relief_record) = Inr ''(1916.1) relief by unknown artist''"
proof -
  obtain b where b: "build (2020, 1, 2) relief_record = Inr b"
    by (simp add: build_eval)
  have acc: "accession b = ''1916.1''"
    using build_accession [OF b] by (simp add: relief_record_def)
  from label_and_description [OF b] b show ?thesis
    unfolding acc
    by (simp add: relief_record_def clean_title_def lstrip_def rstrip_def py_isspace_def
        replace_char_def lower_def lower_char_def author_target_def)
qed

text \<open>
  C5 as stated fails for a title that starts with a space: the label is not the title cut
  to 250 characters.
\<close>

theorem label_is_cleaned_title:
  "map_sum id label (build (2020, 1, 2) (relief_record\<lparr>title := '' Relief of a Woman''\<rparr>))
     \<noteq> Inr (take 250 (title (relief_record\<lparr>title := '' Relief of a Woman''\<rparr>)))"
  by (simp add: build_eval make_label_def)


text \<open>
  C7 (amended): when the query finds nothing and the create call is not rejected, the
  routine issues the create call and then the call that adds the Commons claim, and it
  returns normally. When the second call succeeds the result carries the identifier of
  the new item; when it raises \<open>AttributeError\<close> the result carries the message of the
  failure and no identifier.
\<close>
theorem create_branch_result:
  "build (today w) a = Inr b \<Longrightarrow> sparql w (accession b) = Bindings [] \<Longrightarrow> \<not> save_conflict w \<Longrightarrow>
     calls (snd (sync_wikidata_artwork a w)) =
       calls w @ [EditEntity (newitem b) (import_summary (accession b)),
                  AddClaim (new_qid w) (commons b) (statement_summary (accession b))] \<and>
     fst (sync_wikidata_artwork a w) =
       (if addClaim_raises w (commons b) then
          Return (ReturnTuple
            (''Failed to upload: '' @ accession b @ ''  '' @ error_text w
             @ [CHR 0x0A, CHR 0x09] @ ''Most likely '' @ accession b
             @ '' has a null image response field in artwork JSON'') None)
        else
          Return (ReturnTuple
            (''Uploaded: '' @ accession b @ '' Item: '' @ item_str (new_qid w))
            (Some (item_str (new_qid w)))))"
  by (simp add: sync_wikidata_artwork_def create_item_def Let_def)

text \<open>The relief record on the empty Wikidata: two calls, and the new item is returned.\<close>

theorem create_branch_result_witness:
  "returned_item (fst (sync_wikidata_artwork relief_record empty_wikidata)) = Some ''[[wikidata:Q100]]'' \<and>
   length (calls (snd (sync_wikidata_artwork relief_record empty_wikidata))) = 2"
proof -
  obtain b where b: "build (today empty_wikidata) relief_record = Inr b"
    by (simp add: build_eval)
  have q: "sparql empty_wikidata (accession b) = Bindings []"
    by (simp add: empty_wikidata_def)
  have s: "\<not> save_conflict empty_wikidata"
    by (simp add: empty_wikidata_def)
  have r: "\<not> addClaim_raises empty_wikidata (commons b)"
    using build_commons_target [OF b] by (simp add: empty_wikidata_def relief_record_def)
  from create_branch_result [OF b q s] r show ?thesis
    by (simp add: returned_item_def item_str_def empty_wikidata_def)
qed

text \<open>
  C7 as stated fails for the relief record without images: the query finds nothing, the
  item is created, the Commons claim has no target and its call fails, and the result
  carries no identifier.
\<close>

theorem create_without_image_returns_no_item:
  "sparql empty_wikidata ''1916.1'' = Bindings [] \<and>
   pages (snd (sync_wikidata_artwork (relief_record\<lparr>artwork_images := None\<rparr>) empty_wikidata)) ''Q100'' \<noteq> None \<and>
   returned_item (fst (sync_wikidata_artwork (relief_record\<lparr>artwork_images := None\<rparr>) empty_wikidata)) = None"
  by (simp add: sync_wikidata_artwork_def create_item_def Let_def build_eval
      empty_wikidata_def returned_item_def)

lemma sync_claims_description_edits:
  "filter is_description_edit (issued (snd (sync_claims raises qid b clms cs s)))
     = filter is_description_edit (issued s)"
  by (induction cs arbitrary: s) (auto simp: Let_def)

lemma sync_commons_description_edits:
  "filter is_description_edit (issued (sync_commons raises etext qid a b s))
     = filter is_description_edit (issued s)"
  by (simp add: sync_commons_def Let_def)

lemma sync_commons_descriptions:
  "descriptions (item (sync_commons raises etext qid a b s)) = descriptions (item s)"
  by (simp add: sync_commons_def Let_def)

lemma sync_label_description_edits:
  "filter is_description_edit (issued (sync_label qid b s)) = filter is_description_edit (issued s)"
  by (simp add: sync_label_def editLabels_def split: option.splits)

lemma sync_label_descriptions:
  "descriptions (item (sync_label qid b s)) = descriptions (item s)"
  by (simp add: sync_label_def editLabels_def split: option.splits)

lemma sync_description_edits:
  "filter is_description_edit (issued (sync_description qid b s)) =
     filter is_description_edit (issued s) @
       (if descriptions (item s) ''en'' = Some (descr b) then []
        else [EditDescriptions qid (descr b) (description_summary (accession b))])"
  by (simp add: sync_description_def editDescriptions_def not_get_en_def split: option.splits)

lemma reconcile_description_edits:
  "filter is_description_edit (issued (snd (reconcile raises etext qid a b s))) =
     filter is_description_edit (issued s) @
       (if descriptions (item s) ''en'' = Some (descr b) then []
        else [EditDescriptions qid (descr b) (description_summary (accession b))])"
  by (simp add: reconcile_def Let_def sync_claims_description_edits sync_commons_description_edits
      sync_description_edits sync_label_description_edits sync_label_descriptions)

lemma descr_starts_with_paren: "build now a = Inr b \<Longrightarrow> hd (descr b) = CHR ''(''"
  by (auto simp: build_Inr make_description_def Let_def)

text \<open>
  C10: when the query finds nothing, the first call of the routine is the create call,
  whose English description is the fixed text with the accession number, which is never
  the computed description. When the query finds one item, the routine edits the
  description exactly when the item's English description is not the computed one, and
  the edit writes the computed description.
\<close>
theorem description_create_and_reconcile:
  "build (today w) a = Inr b \<Longrightarrow>
     (sparql w (accession b) = Bindings [] \<longrightarrow>
        calls (snd (sync_wikidata_artwork a w)) ! length (calls w)
          = EditEntity (newitem b) (import_summary (accession b)) \<and>
        data_description (newitem b)
          = ''artwork in the Cleveland Museum of Art's collection ('' @ accession b @ '')'' \<and>
        data_description (newitem b) \<noteq> descr b) \<and>
     (\<forall>qid it. sparql w (accession b) = Bindings [qid] \<and> pages w qid = Some it \<longrightarrow>
        filter is_description_edit (calls (snd (sync_wikidata_artwork a w))) =
          filter is_description_edit (calls w) @
            (if descriptions it ''en'' = Some (descr b) then []
             else [EditDescriptions qid (descr b) (description_summary (accession b))]))"
proof -
  assume b: "build (today w) a = Inr b"
  have differ: "data_description (newitem b) \<noteq> descr b"
  proof
    assume "data_description (newitem b) = descr b"
    then have "hd (data_description (newitem b)) = hd (descr b)" by simp
    then show False
      unfolding descr_starts_with_paren [OF b] by (simp add: newitem_def fixed_description_def)
  qed
  have create: "sparql w (accession b) = Bindings [] \<Longrightarrow>
      calls (snd (sync_wikidata_artwork a w)) ! length (calls w)
          = EditEntity (newitem b) (import_summary (accession b))"
    using b by (simp add: sync_wikidata_artwork_def create_item_def Let_def nth_append)
  have rec: "filter is_description_edit (calls (snd (sync_wikidata_artwork a w))) =
          filter is_description_edit (calls w) @
            (if descriptions it ''en'' = Some (descr b) then []
             else [EditDescriptions qid (descr b) (description_summary (accession b))])"
    if "sparql w (accession b) = Bindings [qid]" "pages w qid = Some it" for qid it
    using b that reconcile_description_edits [of "addClaim_raises w" "error_text w" qid a b
        "\<lparr>item = it, issued = [], output_text = []\<rparr>"]
    by (simp add: sync_wikidata_artwork_def sync_item_def case_prod_unfold)
  from differ create rec show ?thesis
    by (simp add: newitem_def fixed_description_def)
qed


text \<open>
  The relief record on the empty Wikidata, where the item is created with the fixed
  description, and on the Wikidata with one item, whose description is then edited.
\<close>

theorem description_create_and_reconcile_witness:
  "(case calls (snd (sync_wikidata_artwork relief_record empty_wikidata)) ! 0 of
      EditEntity d s \<Rightarrow> data_description d = ''artwork in the Cleveland Museum of Art's collection (1916.1)''
    | _ \<Rightarrow> False) \<and>
   filter is_description_edit (calls (snd (sync_wikidata_artwork relief_record one_item_wikidata)))
     = [EditDescriptions ''Q42'' ''(1916.1) relief by unknown artist'' (description_summary ''1916.1'')]"
proof -
  obtain b where b: "build (2020, 1, 2) relief_record = Inr b"
    by (simp add: build_eval)
  have acc: "accession b = ''1916.1''"
    using build_accession [OF b] by (simp add: relief_record_def)
  have d: "descr b = ''(1916.1) relief by unknown artist''"
    using b by (auto simp: build_Inr relief_record_def make_description_def lower_def
        lower_char_def author_target_def)
  have t1: "today empty_wikidata = (2020, 1, 2)" and t2: "today one_item_wikidata = (2020, 1, 2)"
    by (simp_all add: empty_wikidata_def one_item_wikidata_def)
  have q1: "sparql empty_wikidata (accession b) = Bindings []"
    by (simp add: empty_wikidata_def)
  have q2: "sparql one_item_wikidata (accession b) = Bindings [''Q42''] \<and>
            pages one_item_wikidata ''Q42'' = Some existing_item"
    by (simp add: one_item_wikidata_def)
  have c1: "calls empty_wikidata = []" and c2: "calls one_item_wikidata = []"
    by (simp_all add: empty_wikidata_def one_item_wikidata_def)
  have e: "descriptions existing_item ''en'' \<noteq> Some (descr b)"
    unfolding d by (simp add: existing_item_def)
  from description_create_and_reconcile [of empty_wikidata relief_record b] b q1
  have 1: "calls (snd (sync_wikidata_artwork relief_record empty_wikidata)) ! 0
          = EditEntity (newitem b) (import_summary (accession b)) \<and>
        data_description (newitem b)
          = ''artwork in the Cleveland Museum of Art's collection ('' @ accession b @ '')''"
    unfolding t1 c1 by simp
  from description_create_and_reconcile [of one_item_wikidata relief_record b] b q2 e
  have 2: "filter is_description_edit (calls (snd (sync_wikidata_artwork relief_record one_item_wikidata)))
     = [EditDescriptions ''Q42'' (descr b) (description_summary (accession b))]"
    unfolding t2 c2 by auto
  from 1 2 show ?thesis
    unfolding d acc by simp
qed


text \<open>The main snaks collected from an item, and what adding a claim does to them.\<close>

lemma clms_of_prop_set: "set (clms_of_prop clms cs) = set clms \<union> mainsnak ` set cs"
  by (induction cs arbitrary: clms) auto

lemma clms_loop_set:
  "set (clms_loop clms d) = set clms \<union> (\<Union>pc\<in>set d. mainsnak ` set (snd pc))"
  by (induction clms d rule: clms_loop.induct) (auto simp: clms_of_prop_set)

lemma add_claim_snaks:
  "(\<Union>pc\<in>set (add_claim c d). mainsnak ` set (snd pc))
     = insert (mainsnak c) (\<Union>pc\<in>set d. mainsnak ` set (snd pc))"
  by (induction c d rule: add_claim.induct) auto

lemma clms_add_claim:
  "set (clms_loop [] (add_claim c d)) = insert (mainsnak c) (set (clms_loop [] d))"
  by (simp add: clms_loop_set add_claim_snaks)

lemma keys_add_claim: "set (keys (add_claim c d)) = insert (property_id c) (set (keys d))"
  by (induction c d rule: add_claim.induct) (auto simp: keys_def)

lemma sync_claims_done:
  "sync_claims raises qid b clms cs s = (None, s') \<Longrightarrow>
     labels (item s') = labels (item s) \<and>
     descriptions (item s') = descriptions (item s) \<and>
     set (clms_loop [] (item_claims (item s')))
       = set (clms_loop [] (item_claims (item s))) \<union> (mainsnak ` set cs - set clms) \<and>
     set (keys (item_claims (item s')))
       = set (keys (item_claims (item s))) \<union> property_id ` {c \<in> set cs. mainsnak c \<notin> set clms}"
proof (induction cs arbitrary: s)
  case Nil
  then show ?case by simp
next
  case (Cons stmnt rest)
  show ?case
  proof (cases "mainsnak stmnt \<in> set clms")
    case True
    with Cons.prems have "sync_claims raises qid b clms rest s = (None, s')"
      by simp
    from Cons.IH [OF this] True show ?thesis
      by auto
  next
    case False
    with Cons.prems have nr: "\<not> raises stmnt"
      by (auto simp: Let_def split: if_splits)
    define s2 where "s2 = s\<lparr>issued := issued s @ [AddClaim qid stmnt (statement_summary (accession b))],
        item := (item s)\<lparr>item_claims := add_claim stmnt (item_claims (item s))\<rparr>,
        output_text := output_text s @ [CHR 0x0A, CHR 0x09] @ ''Synchronizing missing ''
                                 @ [CHR 0x27] @ property_id stmnt @ [CHR 0x27] @ '' claim for ''
                                 @ item_str qid @ '': '' @ label b\<rparr>"
    from Cons.prems False nr have "sync_claims raises qid b clms rest s2 = (None, s')"
      by (simp add: Let_def s2_def)
    from Cons.IH [OF this] have
      "labels (item s') = labels (item s2)" "descriptions (item s') = descriptions (item s2)"
      "set (clms_loop [] (item_claims (item s')))
         = set (clms_loop [] (item_claims (item s2))) \<union> (mainsnak ` set rest - set clms)"
      "set (keys (item_claims (item s')))
         = set (keys (item_claims (item s2))) \<union> property_id ` {c \<in> set rest. mainsnak c \<notin> set clms}"
      by simp_all
    moreover have "labels (item s2) = labels (item s)" "descriptions (item s2) = descriptions (item s)"
      "item_claims (item s2) = add_claim stmnt (item_claims (item s))"
      by (simp_all add: s2_def)
    ultimately show ?thesis
      using False by (auto simp: clms_add_claim keys_add_claim)
  qed
qed

lemma sync_claims_present:
  "mainsnak ` set cs \<subseteq> set clms \<Longrightarrow> sync_claims raises qid b clms cs s = (None, s)"
  by (induction cs) auto

lemma sync_label_item:
  "labels (item (sync_label qid b s)) ''en'' = Some (label b)"
  "descriptions (item (sync_label qid b s)) = descriptions (item s)"
  "item_claims (item (sync_label qid b s)) = item_claims (item s)"
  by (simp_all add: sync_label_def editLabels_def not_get_en_def split: option.splits)

lemma sync_label_same: "labels (item s) ''en'' = Some (label b) \<Longrightarrow> sync_label qid b s = s"
  by (simp add: sync_label_def)

lemma sync_description_item:
  "descriptions (item (sync_description qid b s)) ''en'' = Some (descr b)"
  "labels (item (sync_description qid b s)) = labels (item s)"
  "item_claims (item (sync_description qid b s)) = item_claims (item s)"
  by (simp_all add: sync_description_def editDescriptions_def not_get_en_def split: option.splits)

lemma sync_description_same:
  "descriptions (item s) ''en'' = Some (descr b) \<Longrightarrow> sync_description qid b s = s"
  by (simp add: sync_description_def)

lemma sync_commons_item:
  "labels (item (sync_commons raises etext qid a b s)) = labels (item s)"
  "descriptions (item (sync_commons raises etext qid a b s)) = descriptions (item s)"
  "set (clms_loop [] (item_claims (item s)))
     \<subseteq> set (clms_loop [] (item_claims (item (sync_commons raises etext qid a b s))))"
  "set (keys (item_claims (item (sync_commons raises etext qid a b s)))) =
     set (keys (item_claims (item s))) \<union>
       (if share_license_status a = ''CC0'' \<and> artwork_images a \<noteq> None
           \<and> ''P18'' \<notin> set (keys (item_claims (item s)))
           \<and> ''P4765'' \<notin> set (keys (item_claims (item s)))
           \<and> \<not> raises (commons b)
        then {property_id (commons b)} else {})"
  by (auto simp: sync_commons_def Let_def clms_add_claim keys_add_claim)


text \<open>
  What a run of the reconcile branch that returns leaves in the item, and what a run
  does on an item that already has the label, the description and the main snaks.
\<close>

lemma reconcile_first:
  assumes r: "reconcile raises etext qid a b s = (None, s')"
      and pc: "property_id (commons b) = ''P4765''"
      and ps: "\<forall>c\<in>set (claims b). property_id c \<noteq> ''P18'' \<and> property_id c \<noteq> ''P4765''"
  shows "labels (item s') ''en'' = Some (label b)"
    and "descriptions (item s') ''en'' = Some (descr b)"
    and "mainsnak ` set (claims b) \<subseteq> set (clms_loop [] (item_claims (item s')))"
    and "(''P18'' \<in> set (keys (item_claims (item s'))))
           = (''P18'' \<in> set (keys (item_claims (item s))))"
    and "(''P4765'' \<in> set (keys (item_claims (item s'))))
           = (''P4765'' \<in> set (keys (item_claims (item s))) \<or>
              share_license_status a = ''CC0'' \<and> artwork_images a \<noteq> None
                \<and> ''P18'' \<notin> set (keys (item_claims (item s))) \<and> \<not> raises (commons b))"
    and "set (clms_loop [] (item_claims (item s))) \<subseteq> set (clms_loop [] (item_claims (item s')))"
proof -
  define s1 where "s1 = s\<lparr>output_text := output_text s @ ''syncing: '' @ accession b @ '' label: '' @ item_str qid\<rparr>"
  define s3 where "s3 = sync_description qid b (sync_label qid b s1)"
  define clms where "clms = clms_loop [] (item_claims (item s3))"
  define s4 where "s4 = sync_commons raises etext qid a b s3"
  from r have loop: "sync_claims raises qid b clms (claims b) s4 = (None, s')"
    by (simp add: reconcile_def Let_def s1_def s3_def clms_def s4_def)
  have s3: "labels (item s3) ''en'' = Some (label b)" "descriptions (item s3) ''en'' = Some (descr b)"
    "item_claims (item s3) = item_claims (item s)"
    by (simp_all add: s3_def s1_def sync_description_item sync_label_item)
  have s4: "labels (item s4) = labels (item s3)" "descriptions (item s4) = descriptions (item s3)"
    by (simp_all add: s4_def sync_commons_item(1,2))
  have sub: "set clms \<subseteq> set (clms_loop [] (item_claims (item s4)))"
    unfolding clms_def s4_def by (rule sync_commons_item(3))
  have keys4: "set (keys (item_claims (item s4))) =
       set (keys (item_claims (item s))) \<union>
         (if share_license_status a = ''CC0'' \<and> artwork_images a \<noteq> None
             \<and> ''P18'' \<notin> set (keys (item_claims (item s)))
             \<and> ''P4765'' \<notin> set (keys (item_claims (item s)))
             \<and> \<not> raises (commons b)
          then {''P4765''} else {})"
    unfolding s4_def by (auto simp: sync_commons_item(4) s3 pc)
  from sync_claims_done [OF loop] have after:
    "labels (item s') = labels (item s4)" "descriptions (item s') = descriptions (item s4)"
    "set (clms_loop [] (item_claims (item s')))
       = set (clms_loop [] (item_claims (item s4))) \<union> (mainsnak ` set (claims b) - set clms)"
    "set (keys (item_claims (item s')))
       = set (keys (item_claims (item s4))) \<union> property_id ` {c \<in> set (claims b). mainsnak c \<notin> set clms}"
    by simp_all
  show "labels (item s') ''en'' = Some (label b)"
    by (simp add: after s4 s3)
  show "descriptions (item s') ''en'' = Some (descr b)"
    by (simp add: after s4 s3)
  show "mainsnak ` set (claims b) \<subseteq> set (clms_loop [] (item_claims (item s')))"
    unfolding after using sub by blast
  have no18: "''P18'' \<notin> property_id ` {c \<in> set (claims b). mainsnak c \<notin> set clms}"
    and no4765: "''P4765'' \<notin> property_id ` {c \<in> set (claims b). mainsnak c \<notin> set clms}"
    using ps by auto
  show "(''P18'' \<in> set (keys (item_claims (item s'))))
           = (''P18'' \<in> set (keys (item_claims (item s))))"
    unfolding after keys4 using no18 by simp
  show "(''P4765'' \<in> set (keys (item_claims (item s'))))
           = (''P4765'' \<in> set (keys (item_claims (item s))) \<or>
              share_license_status a = ''CC0'' \<and> artwork_images a \<noteq> None
                \<and> ''P18'' \<notin> set (keys (item_claims (item s))) \<and> \<not> raises (commons b))"
    unfolding after keys4 using no4765 by auto
  show "set (clms_loop [] (item_claims (item s))) \<subseteq> set (clms_loop [] (item_claims (item s')))"
    unfolding after using sub unfolding clms_def s3 by blast
qed

lemma reconcile_second:
  assumes l: "labels (item s) ''en'' = Some (label b)"
      and d: "descriptions (item s) ''en'' = Some (descr b)"
      and c: "mainsnak ` set (claims b) \<subseteq> set (clms_loop [] (item_claims (item s)))"
      and f: "share_license_status a = ''CC0'' \<and> artwork_images a \<noteq> None
                \<and> ''P18'' \<notin> set (keys (item_claims (item s)))
                \<and> ''P4765'' \<notin> set (keys (item_claims (item s))) \<longrightarrow> raises (commons b)"
  shows "fst (reconcile raises etext qid a b s) = None"
    and "item (snd (reconcile raises etext qid a b s)) = item s"
    and "issued (snd (reconcile raises etext qid a b s)) =
           issued s @
             (if share_license_status a = ''CC0'' \<and> artwork_images a \<noteq> None
                 \<and> ''P18'' \<notin> set (keys (item_claims (item s)))
                 \<and> ''P4765'' \<notin> set (keys (item_claims (item s)))
              then [AddClaim qid (commons b) (statement_summary (accession b))] else [])"
proof -
  define s1 where "s1 = s\<lparr>output_text := output_text s @ ''syncing: '' @ accession b @ '' label: '' @ item_str qid\<rparr>"
  define s4 where "s4 = sync_commons raises etext qid a b s1"
  have s1: "sync_label qid b s1 = s1" "sync_description qid b s1 = s1" "item s1 = item s" "issued s1 = issued s"
    using l d by (simp_all add: s1_def sync_label_same sync_description_same)
  have s4: "item s4 = item s"
    "issued s4 = issued s @
             (if share_license_status a = ''CC0'' \<and> artwork_images a \<noteq> None
                 \<and> ''P18'' \<notin> set (keys (item_claims (item s)))
                 \<and> ''P4765'' \<notin> set (keys (item_claims (item s)))
              then [AddClaim qid (commons b) (statement_summary (accession b))] else [])"
    using f by (auto simp: s4_def sync_commons_def Let_def s1)
  have "reconcile raises etext qid a b s
          = sync_claims raises qid b
              (clms_loop [] (item_claims (item (sync_description qid b (sync_label qid b s1)))))
              (claims b)
              (sync_commons raises etext qid a b (sync_description qid b (sync_label qid b s1)))"
    by (simp only: reconcile_def Let_def s1_def)
  also have "\<dots> = sync_claims raises qid b (clms_loop [] (item_claims (item s))) (claims b) s4"
    by (simp only: s1 s4_def)
  also have "\<dots> = (None, s4)"
    by (rule sync_claims_present [OF c])
  finally have "reconcile raises etext qid a b s = (None, s4)" .
  then show "fst (reconcile raises etext qid a b s) = None"
    and "item (snd (reconcile raises etext qid a b s)) = item s"
    and "issued (snd (reconcile raises etext qid a b s)) =
           issued s @
             (if share_license_status a = ''CC0'' \<and> artwork_images a \<noteq> None
                 \<and> ''P18'' \<notin> set (keys (item_claims (item s)))
                 \<and> ''P4765'' \<notin> set (keys (item_claims (item s)))
              then [AddClaim qid (commons b) (statement_summary (accession b))] else [])"
    by (simp_all add: s4)
qed

text \<open>The day of the run only shows in the sources of the statements.\<close>

lemma created_claims_snaks:
  "map mainsnak (created_claims now a) = map mainsnak (created_claims now' a)"
  by (simp add: created_claims_def prop_defs mainsnak_def split: option.splits)

lemma copyright_claims_snaks:
  "map mainsnak (copyright_claims now a) = map mainsnak (copyright_claims now' a)"
  by (simp add: copyright_claims_def prop_defs mainsnak_def)

lemma type_claims_snaks:
  "type_claims now a = Inr tc \<Longrightarrow>
     \<exists>tc'. type_claims now' a = Inr tc' \<and> map mainsnak tc' = map mainsnak tc"
  by (auto simp: type_claims_def prop_defs mainsnak_def split: option.splits entity.splits)

lemma build_other_day:
  assumes "build now a = Inr b"
  shows "\<exists>b'. build now' a = Inr b' \<and> label b' = label b \<and> descr b' = descr b \<and>
           commons b' = commons b \<and> accession b' = accession b \<and>
           map mainsnak (claims b') = map mainsnak (claims b)"
proof -
  from assms obtain acc tc c where acc: "accession_number a = Some acc"
    and title: "clean_title a \<noteq> []"
    and tc: "type_claims now a = Inr tc"
    and c: "commons_prop a = Inr c"
    and b: "b = \<lparr>claims = [institution_prop now a, accession_number_prop now a acc,
                         instance_prop now a, title_prop now a, url_prop now a]
                        @ created_claims now a @ copyright_claims now a @ tc,
              commons = c, label = make_label a,
              descr = make_description a acc, accession = acc\<rparr>"
    unfolding build_Inr by blast
  from type_claims_snaks [OF tc] obtain tc' where tc': "type_claims now' a = Inr tc'"
    and eq: "map mainsnak tc' = map mainsnak tc"
    by blast
  have "map mainsnak [institution_prop now' a, accession_number_prop now' a acc,
                         instance_prop now' a, title_prop now' a, url_prop now' a]
      = map mainsnak [institution_prop now a, accession_number_prop now a acc,
                         instance_prop now a, title_prop now a, url_prop now a]"
    by (simp add: prop_defs mainsnak_def)
  with acc title c tc' eq show ?thesis
    unfolding b
    by (simp add: build_def created_claims_snaks [of now' a now] copyright_claims_snaks [of now' a now])
qed

lemma created_claims_target: "c \<in> set (created_claims now a) \<Longrightarrow> target c \<noteq> None"
  using created_claims_cases [of now a] by (auto simp: prop_defs)

lemma copyright_claims_target: "c \<in> set (copyright_claims now a) \<Longrightarrow> target c \<noteq> None"
  by (auto simp: copyright_claims_def prop_defs split: if_splits)

lemma type_claims_target: "type_claims now a = Inr tc \<Longrightarrow> c \<in> set tc \<Longrightarrow> target c \<noteq> None"
  by (auto simp: type_claims_def prop_defs split: option.splits entity.splits if_splits)

lemma build_properties:
  assumes "build now a = Inr b"
  shows "property_id (commons b) = ''P4765''"
    and "\<forall>c\<in>set (claims b). property_id c \<noteq> ''P18'' \<and> property_id c \<noteq> ''P4765''"
    and "\<forall>c\<in>set (claims b). target c \<noteq> None"
    and "share_license_status a = ''CC0'' \<and> artwork_images a \<noteq> None \<longrightarrow> target (commons b) \<noteq> None"
proof -
  from assms obtain acc tc c where tc: "type_claims now a = Inr tc"
    and c: "commons_prop a = Inr c"
    and b: "b = \<lparr>claims = [institution_prop now a, accession_number_prop now a acc,
                         instance_prop now a, title_prop now a, url_prop now a]
                        @ created_claims now a @ copyright_claims now a @ tc,
              commons = c, label = make_label a,
              descr = make_description a acc, accession = acc\<rparr>"
    unfolding build_Inr by blast
  show "property_id (commons b) = ''P4765''"
    unfolding b using c by (auto simp: commons_prop_def split: option.splits if_splits)
  show "\<forall>c\<in>set (claims b). property_id c \<noteq> ''P18'' \<and> property_id c \<noteq> ''P4765''"
    unfolding b
    by (auto simp: prop_defs dest: created_claims_P571 copyright_claims_P6216 type_claims_P31 [OF tc])
  show "\<forall>c\<in>set (claims b). target c \<noteq> None"
    unfolding b
    by (auto simp: prop_defs dest: created_claims_target copyright_claims_target type_claims_target [OF tc])
  show "share_license_status a = ''CC0'' \<and> artwork_images a \<noteq> None \<longrightarrow> target (commons b) \<noteq> None"
    using build_commons_target [OF assms] by blast
qed

text \<open>A run of the reconcile branch returns when \<open>addClaim\<close> raises for none of the statements.\<close>

lemma sync_claims_no_raise:
  "\<forall>c\<in>set cs. \<not> raises c \<Longrightarrow> fst (sync_claims raises qid b clms cs s) = None"
  by (induction cs arbitrary: s) (auto simp: Let_def)

lemma reconcile_returns:
  "\<forall>c\<in>set (claims b). \<not> raises c \<Longrightarrow> fst (reconcile raises etext qid a b s) = None"
  by (simp add: reconcile_def Let_def sync_claims_no_raise)

text \<open>The calls of the reconcile branch that add a claim of the Commons property.\<close>

lemma sync_claims_commons_adds:
  "\<forall>c\<in>set cs. property_id c \<noteq> ''P4765'' \<Longrightarrow>
     filter is_commons_add (issued (snd (sync_claims raises qid b clms cs s)))
       = filter is_commons_add (issued s)"
  by (induction cs arbitrary: s) (auto simp: Let_def)

lemma sync_label_commons_adds:
  "filter is_commons_add (issued (sync_label qid b s)) = filter is_commons_add (issued s)"
  by (simp add: sync_label_def editLabels_def split: option.splits)

lemma sync_description_commons_adds:
  "filter is_commons_add (issued (sync_description qid b s)) = filter is_commons_add (issued s)"
  by (simp add: sync_description_def editDescriptions_def split: option.splits)

lemma sync_commons_adds:
  "property_id (commons b) = ''P4765'' \<Longrightarrow>
     filter is_commons_add (issued (sync_commons raises etext qid a b s)) =
       filter is_commons_add (issued s) @
         (if share_license_status a = ''CC0'' \<and> artwork_images a \<noteq> None
             \<and> ''P18'' \<notin> set (keys (item_claims (item s)))
             \<and> ''P4765'' \<notin> set (keys (item_claims (item s)))
          then [AddClaim qid (commons b) (statement_summary (accession b))] else [])"
  by (simp add: sync_commons_def Let_def)

lemma reconcile_commons_adds:
  assumes "property_id (commons b) = ''P4765''"
      and "\<forall>c\<in>set (claims b). property_id c \<noteq> ''P4765''"
  shows "filter is_commons_add (issued (snd (reconcile raises etext qid a b s))) =
       filter is_commons_add (issued s) @
         (if share_license_status a = ''CC0'' \<and> artwork_images a \<noteq> None
             \<and> ''P18'' \<notin> set (keys (item_claims (item s)))
             \<and> ''P4765'' \<notin> set (keys (item_claims (item s)))
          then [AddClaim qid (commons b) (statement_summary (accession b))] else [])"
  using assms
  by (simp add: reconcile_def Let_def sync_claims_commons_adds sync_commons_adds
      sync_description_commons_adds sync_label_commons_adds sync_description_item sync_label_item)

lemma sync_item_reconcile:
  "pages w qid = Some it \<Longrightarrow>
     sync_item a b qid out w =
       ((case fst (reconcile (addClaim_raises w) (error_text w) qid a b
                     \<lparr>item = it, issued = [], output_text = out\<rparr>) of
           Some x \<Rightarrow> Raise x
         | None \<Rightarrow>
             Return (ReturnTuple
               (output_text (snd (reconcile (addClaim_raises w) (error_text w) qid a b
                                    \<lparr>item = it, issued = [], output_text = out\<rparr>)))
               (Some (item_str qid)))),
        w\<lparr>pages := (pages w)(qid \<mapsto>
               item (snd (reconcile (addClaim_raises w) (error_text w) qid a b
                            \<lparr>item = it, issued = [], output_text = out\<rparr>))),
          calls := calls w @
               issued (snd (reconcile (addClaim_raises w) (error_text w) qid a b
                              \<lparr>item = it, issued = [], output_text = out\<rparr>))\<rparr>)"
  by (simp add: sync_item_def case_prod_unfold)

lemma sync_one_match:
  "build (today w) a = Inr b \<Longrightarrow> sparql w (accession b) = Bindings [qid] \<Longrightarrow>
     sync_wikidata_artwork a w = sync_item a b qid [] w"
  by (simp add: sync_wikidata_artwork_def)

text \<open>
  C4 (amended): the statements built never hold a claim of the Commons property
  \<open>P4765\<close>. The Commons claim is a claim of its own beside them: for a CC0 record with a
  print URL it has the URL as target and the qualifiers author string, title, format,
  license, operator and URL; for a record with status ``Copyrighted'' it has no target.
  It is submitted by an add-claim call of its own: when the query finds nothing and the
  create call is not rejected, the routine issues the create call with the statements
  built and then the call that adds the Commons claim; when the query finds one item,
  the routine issues the call that adds the Commons claim exactly for a CC0 record with
  images and an item with neither a claim \<open>P18\<close> nor a claim \<open>P4765\<close>.
\<close>

theorem commons_claim_kept_apart:
  "build (today w) a = Inr b \<Longrightarrow>
     claims_of_property ''P4765'' b = [] \<and>
     property_id (commons b) = ''P4765'' \<and>
     (\<forall>im u. share_license_status a = ''CC0'' \<and> artwork_images a = Some im \<and> print_url im = Some u \<longrightarrow>
        target (commons b) = Some (WbString u) \<and>
        qualifiers (commons b) =
          [(''P2093'', Some (WbString (author_target a))),
           (''P1476'', Some (title_target a)),
           (''P2701'', Some (ItemPage ''Q2195'')),
           (''P275'', Some (ItemPage ''Q6938433'')),
           (''P137'', Some institution_target),
           (''P2699'', Some (WbString (url a)))]) \<and>
     (share_license_status a = ''Copyrighted'' \<longrightarrow> target (commons b) = None) \<and>
     (sparql w (accession b) = Bindings [] \<and> \<not> save_conflict w \<longrightarrow>
        calls (snd (sync_wikidata_artwork a w)) =
          calls w @ [EditEntity (newitem b) (import_summary (accession b)),
                     AddClaim (new_qid w) (commons b) (statement_summary (accession b))] \<and>
        data_claims (newitem b) = claims b) \<and>
     (\<forall>qid it. sparql w (accession b) = Bindings [qid] \<and> pages w qid = Some it \<longrightarrow>
        filter is_commons_add (calls (snd (sync_wikidata_artwork a w))) =
          filter is_commons_add (calls w) @
            (if share_license_status a = ''CC0'' \<and> artwork_images a \<noteq> None
                \<and> ''P18'' \<notin> set (keys (item_claims it))
                \<and> ''P4765'' \<notin> set (keys (item_claims it))
             then [AddClaim qid (commons b) (statement_summary (accession b))] else []))"
proof -
  assume b: "build (today w) a = Inr b"
  note props = build_properties [OF b]
  have none: "claims_of_property ''P4765'' b = []"
    using props(2) by (auto simp: claims_of_property_def filter_empty_conv)
  from b obtain c where c: "commons_prop a = Inr c" and cb: "commons b = c"
    by (auto simp: build_Inr)
  have tq: "target (commons b) = Some (WbString u) \<and>
        qualifiers (commons b) =
          [(''P2093'', Some (WbString (author_target a))),
           (''P1476'', Some (title_target a)),
           (''P2701'', Some (ItemPage ''Q2195'')),
           (''P275'', Some (ItemPage ''Q6938433'')),
           (''P137'', Some institution_target),
           (''P2699'', Some (WbString (url a)))]"
    if "share_license_status a = ''CC0''" "artwork_images a = Some im" "print_url im = Some u" for im u
    using c that unfolding cb by (auto simp: commons_prop_def)
  have cr: "target (commons b) = None" if "share_license_status a = ''Copyrighted''"
    using c that unfolding cb by (auto simp: commons_prop_def)
  have create: "calls (snd (sync_wikidata_artwork a w)) =
          calls w @ [EditEntity (newitem b) (import_summary (accession b)),
                     AddClaim (new_qid w) (commons b) (statement_summary (accession b))] \<and>
        data_claims (newitem b) = claims b"
    if "sparql w (accession b) = Bindings []" "\<not> save_conflict w"
    using b that by (simp add: sync_wikidata_artwork_def create_item_def Let_def newitem_def)
  have rec: "filter is_commons_add (calls (snd (sync_wikidata_artwork a w))) =
          filter is_commons_add (calls w) @
            (if share_license_status a = ''CC0'' \<and> artwork_images a \<noteq> None
                \<and> ''P18'' \<notin> set (keys (item_claims it))
                \<and> ''P4765'' \<notin> set (keys (item_claims it))
             then [AddClaim qid (commons b) (statement_summary (accession b))] else [])"
    if q: "sparql w (accession b) = Bindings [qid]" and p: "pages w qid = Some it" for qid it
  proof -
    have no: "\<forall>c\<in>set (claims b). property_id c \<noteq> ''P4765''"
      using props(2) by blast
    show ?thesis
      unfolding sync_one_match [OF b q] sync_item_reconcile [OF p]
      by (simp add: reconcile_commons_adds [OF props(1) no])
  qed
  from none props(1) tq cr create rec show ?thesis
    by blast
qed

text \<open>
  The relief record as it is and with the status ``Copyrighted'', and the Commons call
  of the relief record on the empty Wikidata and on the Wikidata with one item.
\<close>

theorem commons_claim_kept_apart_witness:
  "map_sum id (claims_of_property ''P4765'') (build (2020, 1, 2) relief_record) = Inr [] \<and>
   map_sum id (\<lambda>b. target (commons b)) (build (2020, 1, 2) relief_record)
     = Inr (Some (WbString ''https://openaccess-cdn.clevelandart.org/1916.1/1916.1_print.jpg'')) \<and>
   map_sum id (\<lambda>b. target (commons b))
     (build (2020, 1, 2) (relief_record\<lparr>share_license_status := ''Copyrighted''\<rparr>)) = Inr None \<and>
   length (calls (snd (sync_wikidata_artwork relief_record empty_wikidata))) = 2 \<and>
   length (filter is_commons_add (calls (snd (sync_wikidata_artwork relief_record empty_wikidata)))) = 1 \<and>
   length (filter is_commons_add (calls (snd (sync_wikidata_artwork relief_record one_item_wikidata)))) = 1"
proof -
  have t: "today empty_wikidata = (2020, 1, 2)" "today one_item_wikidata = (2020, 1, 2)"
    "today (empty_wikidata\<lparr>calls := cs\<rparr>) = (2020, 1, 2)" for cs
    by (simp_all add: empty_wikidata_def one_item_wikidata_def)
  obtain b where b: "build (2020, 1, 2) relief_record = Inr b"
    by (simp add: build_eval)
  obtain b' where b': "build (2020, 1, 2) (relief_record\<lparr>share_license_status := ''Copyrighted''\<rparr>) = Inr b'"
    by (simp add: build_eval)
  have env: "sparql empty_wikidata (accession b) = Bindings [] \<and> \<not> save_conflict empty_wikidata"
    "calls empty_wikidata = []" "calls one_item_wikidata = []"
    "sparql one_item_wikidata (accession b) = Bindings [''Q42''] \<and>
       pages one_item_wikidata ''Q42'' = Some existing_item"
    by (simp_all add: empty_wikidata_def one_item_wikidata_def)
  have item: "''P18'' \<notin> set (keys (item_claims existing_item)) \<and>
      ''P4765'' \<notin> set (keys (item_claims existing_item))"
    by (simp add: existing_item_def keys_def)
  have rec: "share_license_status relief_record = ''CC0'' \<and> artwork_images relief_record \<noteq> None"
    by (simp add: relief_record_def)
  have u: "share_license_status relief_record = ''CC0'' \<and>
      artwork_images relief_record
        = Some \<lparr>print_url = Some ''https://openaccess-cdn.clevelandart.org/1916.1/1916.1_print.jpg''\<rparr> \<and>
      print_url \<lparr>print_url = Some ''https://openaccess-cdn.clevelandart.org/1916.1/1916.1_print.jpg''\<rparr>
        = Some ''https://openaccess-cdn.clevelandart.org/1916.1/1916.1_print.jpg''"
    by (simp add: relief_record_def)
  have cr: "share_license_status (relief_record\<lparr>share_license_status := ''Copyrighted''\<rparr>) = ''Copyrighted''"
    by simp
  from commons_claim_kept_apart [of empty_wikidata relief_record b, unfolded t, OF b]
    commons_claim_kept_apart [of one_item_wikidata relief_record b, unfolded t, OF b]
    commons_claim_kept_apart [of empty_wikidata "relief_record\<lparr>share_license_status := ''Copyrighted''\<rparr>" b',
      unfolded t, OF b']
    env item rec u cr b b'
  show ?thesis
    by simp
qed

text \<open>
  C4 as stated fails for the relief record, CC0 with a print URL: the Commons claim is
  not among the statements, which hold no claim of property \<open>P4765\<close>.
\<close>

theorem commons_claim_not_in_statements:
  "share_license_status relief_record = ''CC0'' \<and>
   map_option print_url (artwork_images relief_record)
     = Some (Some ''https://openaccess-cdn.clevelandart.org/1916.1/1916.1_print.jpg'') \<and>
   map_sum id (\<lambda>b. commons b \<in> set (claims b)) (build (2020, 1, 2) relief_record) = Inr False \<and>
   map_sum id (claims_of_property ''P4765'') (build (2020, 1, 2) relief_record) = Inr []"
  by (simp add: build_eval claims_of_property_def created_claims_def copyright_claims_def prop_defs)

lemma second_run:
  assumes b: "build (today w) a = Inr b"
      and q: "sparql w (accession b) = Bindings [qid]"
      and p: "pages w qid = Some it"
      and r: "fst (sync_wikidata_artwork a w) = Return r1"
  shows "snd (sync_wikidata_artwork a ((snd (sync_wikidata_artwork a w))\<lparr>today := d\<rparr>)) =
           (snd (sync_wikidata_artwork a w))
             \<lparr>today := d,
              calls := calls (snd (sync_wikidata_artwork a w)) @
                (if share_license_status a = ''CC0'' \<and> artwork_images a \<noteq> None
                    \<and> ''P18'' \<notin> set (keys (item_claims it))
                    \<and> ''P4765'' \<notin> set (keys (item_claims it))
                    \<and> addClaim_raises w (commons b)
                 then [AddClaim qid (commons b) (statement_summary (accession b))] else [])\<rparr>"
    and "returned_item (fst (sync_wikidata_artwork a ((snd (sync_wikidata_artwork a w))\<lparr>today := d\<rparr>)))
           = Some (item_str qid)"
proof -
  let ?R = "addClaim_raises w" and ?E = "error_text w"
  define s0 where "s0 = \<lparr>item = it, issued = [], output_text = []\<rparr>"
  define s' where "s' = snd (reconcile ?R ?E qid a b s0)"
  define w1 where "w1 = w\<lparr>pages := (pages w)(qid \<mapsto> item s'), calls := calls w @ issued s'\<rparr>"
  have run1: "sync_wikidata_artwork a w =
      ((case fst (reconcile ?R ?E qid a b s0) of
          Some x \<Rightarrow> Raise x
        | None \<Rightarrow> Return (ReturnTuple (output_text s') (Some (item_str qid)))), w1)"
    unfolding sync_one_match [OF b q] sync_item_reconcile [OF p] s0_def s'_def w1_def ..
  with r have "fst (reconcile ?R ?E qid a b s0) = None"
    by (simp split: option.splits)
  then have rec: "reconcile ?R ?E qid a b s0 = (None, s')"
    by (simp add: s'_def prod_eq_iff)
  have w1: "snd (sync_wikidata_artwork a w) = w1"
    by (simp add: run1)
  from build_other_day [OF b, of d] obtain b' where b': "build d a = Inr b'"
    and same: "label b' = label b" "descr b' = descr b" "commons b' = commons b"
      "accession b' = accession b" "map mainsnak (claims b') = map mainsnak (claims b)"
    by blast
  from same(5) have snaks: "mainsnak ` set (claims b') = mainsnak ` set (claims b)"
    by (metis set_map)
  note first = reconcile_first [OF rec build_properties(1,2) [OF b]]
  define t0 where "t0 = \<lparr>item = item s', issued = [], output_text = []\<rparr>"
  have t0: "item t0 = item s'" "issued t0 = []"
    by (simp_all add: t0_def)
  have it: "item s0 = it"
    by (simp add: s0_def)
  have l: "labels (item t0) ''en'' = Some (label b')"
    and de: "descriptions (item t0) ''en'' = Some (descr b')"
    and c: "mainsnak ` set (claims b') \<subseteq> set (clms_loop [] (item_claims (item t0)))"
    unfolding t0 same snaks using first(1,2,3) by simp_all
  have f: "share_license_status a = ''CC0'' \<and> artwork_images a \<noteq> None
          \<and> ''P18'' \<notin> set (keys (item_claims (item t0)))
          \<and> ''P4765'' \<notin> set (keys (item_claims (item t0))) \<longrightarrow> ?R (commons b')"
    using first(4,5) unfolding t0 same it by blast
  note second = reconcile_second [of t0 b' a ?R ?E qid, OF l de c f]
  have cond: "(share_license_status a = ''CC0'' \<and> artwork_images a \<noteq> None
          \<and> ''P18'' \<notin> set (keys (item_claims (item t0)))
          \<and> ''P4765'' \<notin> set (keys (item_claims (item t0))))
        = (share_license_status a = ''CC0'' \<and> artwork_images a \<noteq> None
                    \<and> ''P18'' \<notin> set (keys (item_claims it))
                    \<and> ''P4765'' \<notin> set (keys (item_claims it))
                    \<and> addClaim_raises w (commons b))"
    using first(4,5) unfolding t0 it by blast
  have iss: "issued (snd (reconcile ?R ?E qid a b' t0)) =
      (if share_license_status a = ''CC0'' \<and> artwork_images a \<noteq> None
                    \<and> ''P18'' \<notin> set (keys (item_claims it))
                    \<and> ''P4765'' \<notin> set (keys (item_claims it))
                    \<and> addClaim_raises w (commons b)
       then [AddClaim qid (commons b) (statement_summary (accession b))] else [])"
    unfolding second(3) cond by (simp add: t0(2) same)
  let ?w = "w1\<lparr>today := d\<rparr>"
  have env: "today ?w = d" "sparql ?w = sparql w" "pages ?w qid = Some (item s')"
    "addClaim_raises ?w = ?R" "error_text ?w = ?E"
    by (simp_all add: w1_def)
  have b2: "build (today ?w) a = Inr b'"
    unfolding env by (rule b')
  have q2: "sparql ?w (accession b') = Bindings [qid]"
    unfolding env same by (rule q)
  have run2: "sync_wikidata_artwork a ?w =
      (Return (ReturnTuple (output_text (snd (reconcile ?R ?E qid a b' t0))) (Some (item_str qid))),
       ?w\<lparr>pages := (pages ?w)(qid \<mapsto> item s'),
          calls := calls ?w @
            (if share_license_status a = ''CC0'' \<and> artwork_images a \<noteq> None
                    \<and> ''P18'' \<notin> set (keys (item_claims it))
                    \<and> ''P4765'' \<notin> set (keys (item_claims it))
                    \<and> addClaim_raises w (commons b)
             then [AddClaim qid (commons b) (statement_summary (accession b))] else [])\<rparr>)"
    unfolding sync_one_match [OF b2 q2] sync_item_reconcile [OF env(3)] env(4,5)
    unfolding t0_def [symmetric] second(1,2) iss t0(1) by simp
  have pg: "(pages ?w)(qid \<mapsto> item s') = pages ?w"
    by (simp add: w1_def)
  show "snd (sync_wikidata_artwork a ((snd (sync_wikidata_artwork a w))\<lparr>today := d\<rparr>)) =
           (snd (sync_wikidata_artwork a w))
             \<lparr>today := d,
              calls := calls (snd (sync_wikidata_artwork a w)) @
                (if share_license_status a = ''CC0'' \<and> artwork_images a \<noteq> None
                    \<and> ''P18'' \<notin> set (keys (item_claims it))
                    \<and> ''P4765'' \<notin> set (keys (item_claims it))
                    \<and> addClaim_raises w (commons b)
                 then [AddClaim qid (commons b) (statement_summary (accession b))] else [])\<rparr>"
    unfolding w1 run2 pg by simp
  show "returned_item (fst (sync_wikidata_artwork a ((snd (sync_wikidata_artwork a w))\<lparr>today := d\<rparr>)))
           = Some (item_str qid)"
    unfolding w1 run2 by (simp add: returned_item_def)
qed


text \<open>
  C1: let the query find one item, let the item exist and let \<open>addClaim\<close> raise
  \<open>AttributeError\<close> for no claim that has a target. Then the first run of the routine
  returns the item and leaves it with the computed label and description, with the main
  snak of every statement built and with every main snak it had. A second run on the
  Wikidata the first run left, on any day, returns the item again and leaves Wikidata
  as it is, with the record of calls: the second run issues no write call.
\<close>

theorem reconciliation_twice:
  "build (today w) a = Inr b \<Longrightarrow> sparql w (accession b) = Bindings [qid] \<Longrightarrow>
   pages w qid = Some it \<Longrightarrow> \<forall>c. addClaim_raises w c \<longrightarrow> target c = None \<Longrightarrow>
     returned_item (fst (sync_wikidata_artwork a w)) = Some (item_str qid) \<and>
     (\<exists>it1. pages (snd (sync_wikidata_artwork a w)) qid = Some it1 \<and>
        labels it1 ''en'' = Some (label b) \<and>
        descriptions it1 ''en'' = Some (descr b) \<and>
        mainsnak ` set (claims b) \<subseteq> set (clms_loop [] (item_claims it1)) \<and>
        set (clms_loop [] (item_claims it)) \<subseteq> set (clms_loop [] (item_claims it1))) \<and>
     snd (sync_wikidata_artwork a ((snd (sync_wikidata_artwork a w))\<lparr>today := d\<rparr>)) =
       (snd (sync_wikidata_artwork a w))\<lparr>today := d\<rparr> \<and>
     calls (snd (sync_wikidata_artwork a ((snd (sync_wikidata_artwork a w))\<lparr>today := d\<rparr>))) =
       calls (snd (sync_wikidata_artwork a w)) \<and>
     returned_item (fst (sync_wikidata_artwork a ((snd (sync_wikidata_artwork a w))\<lparr>today := d\<rparr>)))
       = Some (item_str qid)"
proof -
  assume b: "build (today w) a = Inr b" and q: "sparql w (accession b) = Bindings [qid]"
    and p: "pages w qid = Some it" and client: "\<forall>c. addClaim_raises w c \<longrightarrow> target c = None"
  note props = build_properties [OF b]
  define s0 where "s0 = \<lparr>item = it, issued = [], output_text = []\<rparr>"
  define s' where "s' = snd (reconcile (addClaim_raises w) (error_text w) qid a b s0)"
  have "\<forall>c\<in>set (claims b). \<not> addClaim_raises w c"
    using props(3) client by blast
  then have ret: "fst (reconcile (addClaim_raises w) (error_text w) qid a b s0) = None"
    by (rule reconcile_returns)
  then have rec: "reconcile (addClaim_raises w) (error_text w) qid a b s0 = (None, s')"
    by (simp add: s'_def prod_eq_iff)
  have first: "fst (sync_wikidata_artwork a w) = Return (ReturnTuple (output_text s') (Some (item_str qid)))"
    and page: "pages (snd (sync_wikidata_artwork a w)) qid = Some (item s')"
    unfolding sync_one_match [OF b q] sync_item_reconcile [OF p]
    by (simp_all add: ret [unfolded s0_def] s'_def s0_def)
  note left = reconcile_first [OF rec props(1,2)]
  have it: "item s0 = it"
    by (simp add: s0_def)
  have item1: "\<exists>it1. pages (snd (sync_wikidata_artwork a w)) qid = Some it1 \<and>
        labels it1 ''en'' = Some (label b) \<and>
        descriptions it1 ''en'' = Some (descr b) \<and>
        mainsnak ` set (claims b) \<subseteq> set (clms_loop [] (item_claims it1)) \<and>
        set (clms_loop [] (item_claims it)) \<subseteq> set (clms_loop [] (item_claims it1))"
    using page left(1,2,3,6) unfolding it by blast
  have no: "\<not> (share_license_status a = ''CC0'' \<and> artwork_images a \<noteq> None
                \<and> ''P18'' \<notin> set (keys (item_claims it))
                \<and> ''P4765'' \<notin> set (keys (item_claims it))
                \<and> addClaim_raises w (commons b))"
    using props(4) client by auto
  note second = second_run [OF b q p first, of d]
  have same: "snd (sync_wikidata_artwork a ((snd (sync_wikidata_artwork a w))\<lparr>today := d\<rparr>)) =
       (snd (sync_wikidata_artwork a w))\<lparr>today := d\<rparr>"
    using second(1) no by simp
  then have "calls (snd (sync_wikidata_artwork a ((snd (sync_wikidata_artwork a w))\<lparr>today := d\<rparr>))) =
       calls (snd (sync_wikidata_artwork a w))"
    by simp
  with same second(2) first item1 show ?thesis
    by (simp add: returned_item_def)
qed

text \<open>
  The relief record on the Wikidata with one item, where \<open>addClaim\<close> raises for a claim
  without target only: the second run, a day later, issues no call.
\<close>

theorem reconciliation_twice_witness:
  "calls (snd (sync_wikidata_artwork relief_record
             ((snd (sync_wikidata_artwork relief_record one_item_wikidata))\<lparr>today := (2020, 1, 3)\<rparr>)))
     = calls (snd (sync_wikidata_artwork relief_record one_item_wikidata)) \<and>
   returned_item (fst (sync_wikidata_artwork relief_record
             ((snd (sync_wikidata_artwork relief_record one_item_wikidata))\<lparr>today := (2020, 1, 3)\<rparr>)))
     = Some ''[[wikidata:Q42]]''"
proof -
  obtain b where b: "build (today one_item_wikidata) relief_record = Inr b"
    by (simp add: build_eval)
  have q: "sparql one_item_wikidata (accession b) = Bindings [''Q42'']"
    and p: "pages one_item_wikidata ''Q42'' = Some existing_item"
    and client: "\<forall>c. addClaim_raises one_item_wikidata c \<longrightarrow> target c = None"
    by (simp_all add: one_item_wikidata_def empty_wikidata_def)
  from reconciliation_twice [OF b q p client, of "(2020, 1, 3)"] show ?thesis
    by (simp add: item_str_def)
qed

end
